theory Spec2Isabelle
  imports Complex_Main "HOL-Library.Sublist"
begin

section \<open>Python values shared by the three modules\<close>

text \<open>
  Python strings are modelled as HOL strings (lists of 8-bit characters). The model is
  exact on ASCII text; a character above 127 is treated as an opaque symbol that is
  neither a letter, a digit nor white space, and that \<open>lower()\<close> leaves alone.
  Floats are only carried around by this program (segment start and duration), so they
  are modelled as reals. Every exception the modelled code can meet is a constructor of
  \<open>error\<close>, and a function that may raise returns \<open>error + 'a\<close> with \<open>Inl\<close> the
  exception.
\<close>

datatype error =
    ValueError string
  | TypeError string
  | KeyError string
  | JSONDecodeError
  | TranscriptsDisabled
  | NoTranscriptFound
  | IndexError
  | FileNotFoundError
  | HTTPException nat string
  | OtherError string

text \<open>A transcript segment: the dict with keys "text", "start" and "duration".\<close>

record segment =
  seg_text :: string
  seg_start :: real
  seg_duration :: real

text \<open>The dict \<open>{"source": ..., "segments": ...}\<close> returned by \<open>get_transcript\<close>.\<close>

record transcript_data =
  source :: string
  segments :: "segment list"

text \<open>The dict \<open>{"name": ..., "sentiment": ..., "insights": ...}\<close> of one topic.\<close>

record insight =
  name :: string
  sentiment :: string
  insights :: "string list"

text \<open>The \<open>snippet\<close> object of the YouTube Data API, as far as the program reads it.\<close>

record snippet =
  title :: "string option"
  description :: "string option"

text \<open>
  The module-level configuration and the external collaborators. Each external call is
  a function from its arguments to its outcome, an exception being \<open>Inl\<close>:
  \<^item> \<open>api_get_transcript\<close> is \<open>YouTubeTranscriptApi.get_transcript\<close>;
  \<^item> \<open>videos_lookup\<close> is the HTTP request of \<open>get_video_details\<close> with
    \<open>raise_for_status\<close> and \<open>json()\<close>: an exception, no item (\<open>None\<close>), or the
    snippet of the first item;
  \<^item> \<open>whisper_pipeline\<close> is the audio download followed by
    \<open>openai.Audio.transcribe\<close>: an exception, or the value under "text" of the
    response (\<open>None\<close> when the key is absent);
  \<^item> \<open>chat_completion\<close> is \<open>openai.ChatCompletion.create\<close> followed by reading
    \<open>choices[0].message.content\<close>; the prompt is a fixed template in the (truncated)
    text and the topic, so the call is a function of these two;
  \<^item> \<open>rng\<close> is the random source: \<open>rng i\<close> is the raw value of the \<open>i\<close>-th draw.
\<close>

record env =
  YT_DLP_AVAILABLE :: bool
  OPENAI_AVAILABLE :: bool
  OPENAI_API_KEY :: "string option"
  YOUTUBE_API_KEY :: "string option"
  api_get_transcript :: "string \<Rightarrow> error + segment list"
  videos_lookup :: "string \<Rightarrow> error + snippet option"
  whisper_pipeline :: "string \<Rightarrow> error + string option"
  chat_completion :: "string \<Rightarrow> string \<Rightarrow> error + string"
  rng :: "nat \<Rightarrow> nat"

text \<open>Truth value of an \<open>Optional[str]\<close>: \<open>None\<close> and the empty string are false.\<close>

definition truthy :: "string option \<Rightarrow> bool" where
  "truthy v = (case v of None \<Rightarrow> False | Some s \<Rightarrow> s \<noteq> [])"

section \<open>String operations of the Python library\<close>

definition ascii_upper :: "char \<Rightarrow> bool" where
  "ascii_upper c = (65 \<le> (of_char c :: nat) \<and> (of_char c :: nat) \<le> 90)"

definition ascii_lower :: "char \<Rightarrow> bool" where
  "ascii_lower c = (97 \<le> (of_char c :: nat) \<and> (of_char c :: nat) \<le> 122)"

definition ascii_digit :: "char \<Rightarrow> bool" where
  "ascii_digit c = (48 \<le> (of_char c :: nat) \<and> (of_char c :: nat) \<le> 57)"

definition lower_char :: "char \<Rightarrow> char" where
  "lower_char c = (if ascii_upper c then char_of (of_char c + (32::nat)) else c)"

text \<open>\<open>s.lower()\<close>\<close>

definition py_lower :: "string \<Rightarrow> string" where
  "py_lower s = map lower_char s"

text \<open>
  \<open>s.count(w)\<close>: the number of non-overlapping occurrences of \<open>w\<close>, scanning from
  the left. The first argument of \<open>count_from\<close> is the number of characters still
  covered by the occurrence just counted.
\<close>

fun count_from :: "nat \<Rightarrow> string \<Rightarrow> string \<Rightarrow> nat" where
  "count_from k [] w = 0"
| "count_from (Suc k) (c # cs) w = count_from k cs w"
| "count_from 0 (c # cs) w =
     (if prefix w (c # cs) then Suc (count_from (length w - 1) cs w)
      else count_from 0 cs w)"

definition py_count :: "string \<Rightarrow> string \<Rightarrow> nat" where
  "py_count s w = (if w = [] then Suc (length s) else count_from 0 s w)"

text \<open>\<open>sep.join(xs)\<close>\<close>

fun py_join :: "string \<Rightarrow> string list \<Rightarrow> string" where
  "py_join sep [] = []"
| "py_join sep [x] = x"
| "py_join sep (x # y # ys) = x @ sep @ py_join sep (y # ys)"

text \<open>\<open>s.split(c)\<close> for a separator of one character: never an empty list.\<close>

fun py_split :: "char \<Rightarrow> string \<Rightarrow> string list" where
  "py_split c [] = [[]]"
| "py_split c (x # xs) =
     (if x = c then [] # py_split c xs
      else (case py_split c xs of [] \<Rightarrow> [[x]] | p # ps \<Rightarrow> (x # p) # ps))"

text \<open>
  White space in the sense of \<open>str.isspace\<close>, on ASCII: tab, line feed, vertical tab,
  form feed, carriage return, the separators 0x1C to 0x1F, and the space.
\<close>

definition py_isspace :: "char \<Rightarrow> bool" where
  "py_isspace c =
     ((9 \<le> (of_char c :: nat) \<and> (of_char c :: nat) \<le> 13) \<or> (28 \<le> (of_char c :: nat) \<and> (of_char c :: nat) \<le> 32))"

definition lstrip_with :: "(char \<Rightarrow> bool) \<Rightarrow> string \<Rightarrow> string" where
  "lstrip_with P s = dropWhile P s"

definition rstrip_with :: "(char \<Rightarrow> bool) \<Rightarrow> string \<Rightarrow> string" where
  "rstrip_with P s = rev (dropWhile P (rev s))"

definition strip_with :: "(char \<Rightarrow> bool) \<Rightarrow> string \<Rightarrow> string" where
  "strip_with P s = rstrip_with P (lstrip_with P s)"

text \<open>\<open>s.strip()\<close>\<close>

definition py_strip :: "string \<Rightarrow> string" where
  "py_strip s = strip_with py_isspace s"

text \<open>\<open>s.strip(chars)\<close>\<close>

definition py_strip_chars :: "string \<Rightarrow> string \<Rightarrow> string" where
  "py_strip_chars chars s = strip_with (\<lambda>c. c \<in> set chars) s"

text \<open>\<open>s.startswith(p)\<close>\<close>

definition startswith :: "string \<Rightarrow> string \<Rightarrow> bool" where
  "startswith s p = prefix p s"

text \<open>\<open>sub in s\<close>\<close>

fun py_in :: "string \<Rightarrow> string \<Rightarrow> bool" where
  "py_in sub [] = (sub = [])"
| "py_in sub (c # cs) = (prefix sub (c # cs) \<or> py_in sub cs)"

text \<open>
  \<open>s.replace(old, new)\<close> for a non-empty \<open>old\<close>: every non-overlapping occurrence,
  from the left. The first argument of \<open>replace_from\<close> counts the characters of the
  occurrence just replaced that are still to be skipped.
\<close>

fun replace_from :: "nat \<Rightarrow> string \<Rightarrow> string \<Rightarrow> string \<Rightarrow> string" where
  "replace_from k old new [] = []"
| "replace_from (Suc k) old new (c # cs) = replace_from k old new cs"
| "replace_from 0 old new (c # cs) =
     (if prefix old (c # cs) then new @ replace_from (length old - 1) old new cs
      else c # replace_from 0 old new cs)"

definition py_replace :: "string \<Rightarrow> string \<Rightarrow> string \<Rightarrow> string" where
  "py_replace old new s = replace_from 0 old new s"

section \<open>nlp\_pipeline.py\<close>

subsection \<open>\<open>random.sample\<close>\<close>

text \<open>
  \<open>random.sample(population, k)\<close> of the standard library, in the variant it uses for
  a small population: it raises ValueError unless \<open>k \<le> n\<close>, and otherwise draws
  \<open>k\<close> times an index below the number of elements not yet chosen, takes the element
  there and moves the last unchosen element into its place. The \<open>i\<close>-th draw is
  \<open>rng i\<close> reduced below the bound.
\<close>

fun sample_loop :: "(nat \<Rightarrow> nat) \<Rightarrow> nat \<Rightarrow> 'a list \<Rightarrow> nat \<Rightarrow> 'a list" where
  "sample_loop r i pool 0 = []"
| "sample_loop r i pool (Suc k) =
     (if pool = [] then []
      else (let j = r i mod length pool
            in (pool ! j) # sample_loop r (Suc i) (butlast (pool[j := last pool])) k))"

definition random_sample :: "(nat \<Rightarrow> nat) \<Rightarrow> 'a list \<Rightarrow> nat \<Rightarrow> error + 'a list" where
  "random_sample r population k =
     (if k \<le> length population then Inr (sample_loop r 0 population k)
      else Inl (ValueError ''Sample larger than population or is negative''))"

subsection \<open>\<open>analyze_sentiment_simple\<close>\<close>

definition positive_words :: "string list" where
  "positive_words =
    [''benefit'', ''advantage'', ''opportunity'', ''positive'', ''good'', ''great'', ''excellent'',
     ''improve'', ''improvement'', ''progress'', ''solution'', ''success'', ''successful'',
     ''effective'', ''efficient'', ''sustainable'', ''innovative'', ''innovation'', ''clean'',
     ''save'', ''savings'', ''growth'', ''advance'', ''advantage'', ''beneficial'', ''better'',
     ''progress'', ''promising'', ''protect'', ''protection'', ''reduce'', ''reduction'']"

definition negative_words :: "string list" where
  "negative_words =
    [''problem'', ''challenge'', ''difficult'', ''difficulty'', ''issue'', ''concern'', ''risk'',
     ''threat'', ''crisis'', ''damage'', ''harmful'', ''negative'', ''pollute'', ''pollution'',
     ''waste'', ''danger'', ''dangerous'', ''hazard'', ''hazardous'', ''toxic'', ''costly'',
     ''expensive'', ''fail'', ''failure'', ''loss'', ''deficit'', ''shortage'', ''decrease'']"

text \<open>
  The comparison \<open>positive_count > negative_count * 1.5\<close> is between an integer and
  the product of an integer and a float; the product is exact for every count a text
  can reach, so it is taken over the reals.
\<close>

definition analyze_sentiment_simple :: "string \<Rightarrow> string \<Rightarrow> string" where
  "analyze_sentiment_simple txt topic =
     (let text_lower = py_lower txt;
          positive_count = sum_list (map (py_count text_lower) positive_words);
          negative_count = sum_list (map (py_count text_lower) negative_words)
      in if real positive_count > real negative_count * 1.5 then ''positive''
         else if real negative_count > real positive_count * 1.5 then ''negative''
         else ''neutral'')"

subsection \<open>\<open>generate_insights_with_gpt\<close>\<close>

text \<open>The bullet character U+2022 in UTF-8.\<close>

definition bullet :: string where
  "bullet = [CHR 0xE2, CHR 0x80, CHR 0xA2]"

definition parse_insights :: "string \<Rightarrow> string list" where
  "parse_insights content =
     (let insights_text = py_strip content;
          lines = py_split CHR 0x0A insights_text;
          bullets = map (\<lambda>line. py_replace ''- '' [] (py_replace (bullet @ '' '') [] (py_strip line)))
                      (filter (\<lambda>line. startswith (py_strip line) bullet \<or> startswith (py_strip line) ''-'') lines);
          nonempty = (if bullets = []
                      then map py_strip (filter (\<lambda>line. py_strip line \<noteq> []) lines)
                      else bullets)
      in if nonempty = [] then [insights_text] else nonempty)"

definition gpt_unavailable_insights :: "string \<Rightarrow> string list" where
  "gpt_unavailable_insights topic =
     [''Consider developing comprehensive sustainability policies related to '' @ topic @ ''.'',
      ''Monitor emerging regulations in the '' @ topic @ '' space to ensure compliance.'',
      ''Engage with industry partners on collaborative '' @ topic @ '' initiatives.'']"

definition gpt_failure_insights :: "string \<Rightarrow> string list" where
  "gpt_failure_insights topic =
     [''Consider developing comprehensive sustainability policies related to '' @ topic @ ''.'',
      ''Monitor emerging regulations in the '' @ topic @ '' space to ensure compliance.'']"

text \<open>The text is cut to 6000 characters before it goes into the prompt.\<close>

definition limit_text :: "string \<Rightarrow> string" where
  "limit_text txt = (if length txt > 6000 then take 6000 txt @ ''...'' else txt)"

text \<open>
  The whole body is inside \<open>try\<close> with \<open>except Exception\<close>, so an exception of the
  model call becomes the two generic insights.
\<close>

definition generate_insights_with_gpt :: "env \<Rightarrow> string \<Rightarrow> string \<Rightarrow> error + string list" where
  "generate_insights_with_gpt e txt topic =
     (if \<not> OPENAI_AVAILABLE e \<or> \<not> truthy (OPENAI_API_KEY e)
      then Inr (gpt_unavailable_insights topic)
      else (case chat_completion e (limit_text txt) topic of
              Inl ex \<Rightarrow> Inr (gpt_failure_insights topic)
            | Inr content \<Rightarrow> Inr (parse_insights content)))"

subsection \<open>\<open>extract_insights\<close>\<close>

text \<open>The dict \<open>topic_insights\<close>, in insertion order.\<close>

definition topic_insights :: "(string \<times> string list) list" where
  "topic_insights =
    [(''Climate Change'',
       [''Develop a comprehensive carbon footprint tracking system to monitor and reduce greenhouse gas emissions.'',
        ''Invest in climate resilience measures to prepare facilities for extreme weather events.'',
        ''Partner with environmental NGOs to support reforestation and carbon offset projects.'']),
     (''Renewable Energy'',
       [''Transition facilities to solar or wind power through PPAs (Power Purchase Agreements) with renewable providers.'',
        ''Install on-site renewable energy generation like solar panels to reduce operational costs.'',
        ''Implement energy storage solutions to maximize renewable energy utilization during peak demand.'']),
     (''Waste Management'',
       [''Establish a zero-waste-to-landfill policy with specific reduction targets and timelines.'',
        ''Redesign packaging to use biodegradable materials and minimize single-use plastics.'',
        ''Implement a comprehensive recycling program with clear labeling and employee training.'']),
     (''Carbon Emissions'',
       [''Convert company fleet to electric vehicles and install charging infrastructure.'',
        ''Set science-based targets for emissions reduction aligned with the Paris Agreement.'',
        ''Implement a carbon pricing mechanism for internal decision-making and investments.'']),
     (''Corporate Sustainability'',
       [''Integrate ESG (Environmental, Social, Governance) metrics into executive compensation structures.'',
        ''Publish an annual sustainability report following GRI or SASB standards for transparency.'',
        ''Establish a cross-functional sustainability committee with C-suite representation.'']),
     (''Water Conservation'',
       [''Install water-efficient fixtures and implement greywater recycling systems in facilities.'',
        ''Conduct water footprint assessments for all products and set reduction targets.'',
        ''Partner with watershed conservation organizations in regions where you operate.'']),
     (''Sustainable Supply Chain'',
       [''Implement supplier sustainability scorecards and set minimum requirements for vendors.'',
        ''Reduce transportation emissions through optimized logistics and local sourcing.'',
        ''Conduct regular sustainability audits of key suppliers and offer improvement resources.'']),
     (''Circular Economy'',
       [''Design products for disassembly and recyclability to extend their lifecycle.'',
        ''Establish product take-back programs to recover materials at end of life.'',
        ''Launch a service-based business model alongside product sales to reduce resource consumption.''])]"

text \<open>\<open>topic_insights.get(topic, [...])\<close> with its two-line default.\<close>

definition topic_insights_get :: "string \<Rightarrow> string list" where
  "topic_insights_get topic =
     (case map_of topic_insights topic of
        Some l \<Rightarrow> l
      | None \<Rightarrow>
          [''Consider developing sustainability policies related to '' @ topic @ ''.'',
           ''Monitor emerging regulations in the '' @ topic @ '' space to ensure compliance.''])"

text \<open>
  The body of the \<open>try\<close> of one loop iteration. The inner \<open>try\<close> replaces an
  exception of the generator by the predefined insights of the topic; the sentiment is
  computed afterwards in either case.
\<close>

definition topic_body :: "env \<Rightarrow> string \<Rightarrow> string \<Rightarrow> error + insight" where
  "topic_body e full_text topic =
     (let found =
            (if truthy (OPENAI_API_KEY e) \<and> OPENAI_AVAILABLE e
             then (case generate_insights_with_gpt e full_text topic of
                     Inr l \<Rightarrow> l
                   | Inl ex \<Rightarrow> topic_insights_get topic)
             else topic_insights_get topic);
          sent = analyze_sentiment_simple full_text topic
      in Inr \<lparr>name = topic, sentiment = sent, insights = found\<rparr>)"

text \<open>The record appended by the outer \<open>except\<close> of one loop iteration.\<close>

definition topic_fallback :: "string \<Rightarrow> insight" where
  "topic_fallback topic =
     \<lparr>name = topic, sentiment = ''neutral'',
      insights = [''Consider developing sustainability policies related to '' @ topic
                  @ '' based on emerging regulations.'']\<rparr>"

definition process_topic :: "env \<Rightarrow> string \<Rightarrow> string \<Rightarrow> insight" where
  "process_topic e full_text topic =
     (case topic_body e full_text topic of
        Inr r \<Rightarrow> r
      | Inl ex \<Rightarrow> topic_fallback topic)"

definition full_text_of :: "segment list \<Rightarrow> string" where
  "full_text_of transcript_segments = py_join '' '' (map seg_text transcript_segments)"

definition extract_insights :: "env \<Rightarrow> segment list \<Rightarrow> error + insight list" where
  "extract_insights e transcript_segments =
     (let full_text = full_text_of transcript_segments
      in case random_sample (rng e) (map fst topic_insights) (min 6 (length topic_insights)) of
           Inl ex \<Rightarrow> Inl ex
         | Inr selected_topics \<Rightarrow> Inr (map (process_topic e full_text) selected_topics))"

section \<open>urllib.parse and re, as far as \<open>extract_video_id\<close> uses them\<close>

text \<open>
  The functions of this section are part of the Python standard library. They are
  modelled from the library's documented behaviour and follow the algorithm of
  \<open>urllib/parse.py\<close> step by step; what is left out is said at each definition.
\<close>

text \<open>The six fields of a \<open>ParseResult\<close>.\<close>

record parse_result =
  scheme :: string
  netloc :: string
  path :: string
  params :: string
  query :: string
  fragment :: string

text \<open>\<open>s.split(c, 1)\<close> when \<open>c\<close> occurs in \<open>s\<close>, and \<open>(s, '')\<close> otherwise.\<close>

definition split_once :: "char \<Rightarrow> string \<Rightarrow> string \<times> string" where
  "split_once c s = (takeWhile (\<lambda>x. x \<noteq> c) s, drop 1 (dropWhile (\<lambda>x. x \<noteq> c) s))"

definition scheme_char :: "char \<Rightarrow> bool" where
  "scheme_char c = (ascii_lower c \<or> ascii_upper c \<or> ascii_digit c \<or> c \<in> set ''+-.'')"

text \<open>
  \<open>urlsplit\<close>: leading C0 control characters and spaces are stripped, tab, carriage
  return and line feed are removed everywhere, the scheme is what stands before the
  first colon when it is made of scheme characters and starts with a letter, the network
  location is what follows \<open>//\<close> up to the first of \<open>/\<close>, \<open>?\<close> and \<open>#\<close>, and the
  rest is split at the first \<open>#\<close> and then at the first \<open>?\<close>. Unmatched square
  brackets in the network location raise ValueError. Left out: the check of a non-ASCII
  network location under NFKC normalisation, and the check, added in recent versions,
  that a host in matched brackets is an IP literal.
\<close>

definition urlsplit :: "string \<Rightarrow> error + parse_result" where
  "urlsplit url0 =
     (let url1 = lstrip_with (\<lambda>c. (of_char c :: nat) \<le> 32) url0;
          url2 = filter (\<lambda>c. c \<notin> set [CHR 0x09, CHR 0x0D, CHR 0x0A]) url1;
          lead = takeWhile (\<lambda>c. c \<noteq> CHR '':'') url2;
          has_scheme = (CHR '':'' \<in> set url2 \<and> lead \<noteq> []
                        \<and> (ascii_lower (hd lead) \<or> ascii_upper (hd lead))
                        \<and> list_all scheme_char lead);
          sch = (if has_scheme then py_lower lead else []);
          url3 = (if has_scheme then drop (Suc (length lead)) url2 else url2);
          has_netloc = (take 2 url3 = ''//'');
          loc = (if has_netloc then takeWhile (\<lambda>c. c \<notin> set ''/?#'') (drop 2 url3) else []);
          url4 = (if has_netloc then dropWhile (\<lambda>c. c \<notin> set ''/?#'') (drop 2 url3) else url3)
      in if has_netloc \<and> ((CHR ''['' \<in> set loc \<and> CHR '']'' \<notin> set loc)
                           \<or> (CHR '']'' \<in> set loc \<and> CHR ''['' \<notin> set loc))
         then Inl (ValueError ''Invalid IPv6 URL'')
         else (let (url5, frag) = split_once CHR ''#'' url4;
                   (url6, qry) = split_once CHR ''?'' url5
               in Inr \<lparr>scheme = sch, netloc = loc, path = url6, params = [],
                       query = qry, fragment = frag\<rparr>))"

definition uses_params :: "string list" where
  "uses_params = [[], ''ftp'', ''hdl'', ''prospero'', ''http'', ''imap'', ''https'', ''shttp'',
                  ''rtsp'', ''rtspu'', ''sip'', ''sips'', ''mms'', ''sftp'', ''tel'']"

text \<open>
  \<open>_splitparams\<close>: the parameters start at the first semicolon of the last path
  segment.
\<close>

definition splitparams :: "string \<Rightarrow> string \<times> string" where
  "splitparams url =
     (let last_seg = rev (takeWhile (\<lambda>c. c \<noteq> CHR ''/'') (rev url));
          front = take (length url - length last_seg) url
      in if CHR ''/'' \<in> set url
         then (if CHR '';'' \<in> set last_seg
               then (front @ fst (split_once CHR '';'' last_seg), snd (split_once CHR '';'' last_seg))
               else (url, []))
         else split_once CHR '';'' url)"

definition urlparse :: "string \<Rightarrow> error + parse_result" where
  "urlparse url =
     (case urlsplit url of
        Inl ex \<Rightarrow> Inl ex
      | Inr r \<Rightarrow>
          if scheme r \<in> set uses_params \<and> CHR '';'' \<in> set (path r)
          then Inr (r\<lparr>path := fst (splitparams (path r)), params := snd (splitparams (path r))\<rparr>)
          else Inr r)"

definition hex_digit :: "char \<Rightarrow> bool" where
  "hex_digit c = (ascii_digit c \<or> c \<in> set ''abcdefABCDEF'')"

definition hex_value :: "char \<Rightarrow> nat" where
  "hex_value c =
     (if ascii_digit c then of_char c - 48
      else if ascii_lower c then of_char c - 87
      else of_char c - 55)"

text \<open>
  \<open>unquote\<close>: a percent sign followed by two hexadecimal digits stands for the byte
  they name. Python then decodes runs of such bytes as UTF-8; the model keeps each byte
  as one character, which is the same for bytes below 128.
\<close>

fun unquote :: "string \<Rightarrow> string" where
  "unquote (p # a # b # cs) =
     (if p = CHR ''%'' \<and> hex_digit a \<and> hex_digit b
      then char_of (16 * hex_value a + hex_value b) # unquote cs
      else p # unquote (a # b # cs))"
| "unquote cs = cs"

definition plus_to_space :: "string \<Rightarrow> string" where
  "plus_to_space s = map (\<lambda>c. if c = CHR ''+'' then CHR '' '' else c) s"

text \<open>
  \<open>parse_qsl\<close> with its default arguments: the fields are separated by \<open>&\<close>; a field
  without \<open>=\<close> or with an empty value is dropped; name and value are unquoted.
\<close>

definition parse_field :: "string \<Rightarrow> (string \<times> string) list" where
  "parse_field name_value =
     (if CHR ''='' \<notin> set name_value then []
      else (let (n, v) = split_once CHR ''='' name_value
            in if v = [] then [] else [(unquote (plus_to_space n), unquote (plus_to_space v))]))"

definition parse_qsl :: "string \<Rightarrow> (string \<times> string) list" where
  "parse_qsl qs = concat (map parse_field (py_split CHR ''&'' qs))"

text \<open>
  \<open>parse_qs(qs)[key][0]\<close>, with \<open>None\<close> when \<open>key\<close> is not in the dict: the value of
  the first field of that name.
\<close>

definition parse_qs_first :: "string \<Rightarrow> string \<Rightarrow> string option" where
  "parse_qs_first qs key = map_of (parse_qsl qs) key"

text \<open>
  The class \<open>[\w-]\<close> on ASCII, and \<open>re.search\<close> for a pattern of the form
  \<open>(?:lit1|lit2|...)([\w-]+)\<close>: the leftmost position where one of the literals,
  tried in order, is followed by at least one character of the class; the group is the
  longest run of such characters.
\<close>

definition id_char :: "char \<Rightarrow> bool" where
  "id_char c = (ascii_lower c \<or> ascii_upper c \<or> ascii_digit c \<or> c = CHR ''_'' \<or> c = CHR ''-'')"

fun match_here :: "string list \<Rightarrow> string \<Rightarrow> string option" where
  "match_here [] s = None"
| "match_here (lit # lits) s =
     (if prefix lit s \<and> takeWhile id_char (drop (length lit) s) \<noteq> []
      then Some (takeWhile id_char (drop (length lit) s))
      else match_here lits s)"

fun re_search :: "string list \<Rightarrow> string \<Rightarrow> string option" where
  "re_search lits [] = match_here lits []"
| "re_search lits (c # cs) =
     (case match_here lits (c # cs) of
        Some g \<Rightarrow> Some g
      | None \<Rightarrow> re_search lits cs)"

section \<open>youtube\_client.py\<close>

subsection \<open>\<open>extract_video_id\<close>\<close>

text \<open>The list \<open>patterns\<close>: each pattern is given by its alternatives.\<close>

definition patterns :: "string list list" where
  "patterns =
     [[''youtube.com/watch?v='', ''youtu.be/''],
      [''youtube.com/shorts/''],
      [''youtube.com/live/''],
      [''youtube.com/embed/''],
      [''youtube.com/v/'']]"

text \<open>The loop over \<open>patterns\<close>: the group of the first pattern that matches.\<close>

fun first_match :: "string list list \<Rightarrow> string \<Rightarrow> string option" where
  "first_match [] url = None"
| "first_match (p # ps) url =
     (case re_search p url of
        Some video_id \<Rightarrow> Some video_id
      | None \<Rightarrow> first_match ps url)"

text \<open>\<open>xs[i]\<close>\<close>

definition subscript :: "'a list \<Rightarrow> nat \<Rightarrow> error + 'a" where
  "subscript xs i = (if i < length xs then Inr (xs ! i) else Inl IndexError)"

text \<open>
  The part of \<open>extract_video_id\<close> under \<open>if 'youtube.com' in parsed_url.netloc\<close>:
  \<open>Some\<close> is a \<open>return\<close>, \<open>None\<close> falls through to the patterns.
\<close>

definition youtube_com_paths :: "parse_result \<Rightarrow> error + string option" where
  "youtube_com_paths parsed_url =
     (if path parsed_url = ''/watch''
      then Inr (parse_qs_first (query parsed_url) ''v'')
      else if startswith (path parsed_url) ''/shorts/'' \<or> startswith (path parsed_url) ''/live/''
      then (case subscript (py_split CHR ''/'' (path parsed_url)) 2 of
              Inl ex \<Rightarrow> Inl ex
            | Inr video_id \<Rightarrow> Inr (Some video_id))
      else Inr None)"

definition regex_fallback :: "string \<Rightarrow> string" where
  "regex_fallback url =
     (case first_match patterns url of
        Some video_id \<Rightarrow> video_id
      | None \<Rightarrow> ''D9Ihs241zeg'')"

definition extract_video_id :: "string \<Rightarrow> error + string" where
  "extract_video_id url =
     (case urlparse url of
        Inl ex \<Rightarrow> Inl ex
      | Inr parsed_url \<Rightarrow>
          if py_in ''youtu.be'' (netloc parsed_url)
          then Inr (py_strip_chars ''/'' (path parsed_url))
          else if py_in ''youtube.com'' (netloc parsed_url) \<or> py_in ''m.youtube.com'' (netloc parsed_url)
          then (case youtube_com_paths parsed_url of
                  Inl ex \<Rightarrow> Inl ex
                | Inr (Some video_id) \<Rightarrow> Inr video_id
                | Inr None \<Rightarrow> Inr (regex_fallback url))
          else Inr (regex_fallback url))"

subsection \<open>The Redis store\<close>

text \<open>
  Redis holds strings. The program stores plain words and messages, and the output of
  \<open>json.dumps\<close> on a transcript dict or on a list of insight dicts. \<open>Json j\<close> stands
  for the string \<open>json.dumps(j)\<close>, which is never empty and which \<open>json.loads\<close>
  turns back into \<open>j\<close>; \<open>Text s\<close> stands for a string that was stored as it is, and
  loading it raises JSONDecodeError.
\<close>

datatype json = JTranscript transcript_data | JInsights "insight list"

datatype rvalue = Text string | Json json

text \<open>A key holds a value together with the time at which it expires.\<close>

type_synonym store = "string \<Rightarrow> (rvalue \<times> nat) option"

text \<open>The external calls of \<open>youtube_client.py\<close>, recorded when they are made.\<close>

datatype call = TranscriptApi string | VideoDetails string | WhisperPipeline string

text \<open>
  The state the program runs in: the clock in seconds, the content of the store, the
  content of the store after each write command issued so far (oldest first), and the
  external calls made so far. The clock does not advance while one handler or task
  runs; \<open>advance\<close> lets time pass between them.
\<close>

record world =
  now :: nat
  kv :: store
  history :: "store list"
  calls :: "call list"

definition request_world :: "nat \<Rightarrow> store \<Rightarrow> world" where
  "request_world t m = \<lparr>now = t, kv = m, history = [], calls = []\<rparr>"

definition advance :: "nat \<Rightarrow> world \<Rightarrow> world" where
  "advance d w = w\<lparr>now := now w + d\<rparr>"

definition commit :: "store \<Rightarrow> world \<Rightarrow> world" where
  "commit m w = w\<lparr>kv := m, history := history w @ [m]\<rparr>"

definition record_call :: "call \<Rightarrow> world \<Rightarrow> world" where
  "record_call c w = w\<lparr>calls := calls w @ [c]\<rparr>"

text \<open>\<open>redis_client.delete(key)\<close>\<close>

definition redis_delete :: "string \<Rightarrow> world \<Rightarrow> world" where
  "redis_delete key w = commit ((kv w)(key := None)) w"

text \<open>\<open>redis_client.setex(key, ttl, value)\<close>\<close>

definition redis_setex :: "string \<Rightarrow> nat \<Rightarrow> rvalue \<Rightarrow> world \<Rightarrow> world" where
  "redis_setex key ttl v w = commit ((kv w)(key \<mapsto> (v, now w + ttl))) w"

text \<open>What a read of \<open>key\<close> at time \<open>t\<close> finds in the store \<open>m\<close>.\<close>

definition read_at :: "nat \<Rightarrow> store \<Rightarrow> string \<Rightarrow> rvalue option" where
  "read_at t m key =
     (case m key of
        None \<Rightarrow> None
      | Some (v, expiry) \<Rightarrow> if t < expiry then Some v else None)"

text \<open>\<open>redis_client.get(key)\<close>\<close>

definition redis_get :: "string \<Rightarrow> world \<Rightarrow> rvalue option" where
  "redis_get key w = read_at (now w) (kv w) key"

text \<open>Truth value of what \<open>get\<close> returns: \<open>None\<close> and the empty string are false.\<close>

definition found :: "rvalue option \<Rightarrow> bool" where
  "found r = (case r of None \<Rightarrow> False | Some (Text s) \<Rightarrow> s \<noteq> [] | Some (Json j) \<Rightarrow> True)"

definition json_loads :: "rvalue \<Rightarrow> error + json" where
  "json_loads v = (case v of Json j \<Rightarrow> Inr j | Text s \<Rightarrow> Inl JSONDecodeError)"

text \<open>\<open>str(e)\<close>: the message of an exception.\<close>

definition error_str :: "error \<Rightarrow> string" where
  "error_str ex =
     (case ex of
        ValueError s \<Rightarrow> s
      | TypeError s \<Rightarrow> s
      | KeyError s \<Rightarrow> s
      | JSONDecodeError \<Rightarrow> ''Expecting value''
      | TranscriptsDisabled \<Rightarrow> ''Subtitles are disabled for this video''
      | NoTranscriptFound \<Rightarrow> ''No transcripts were found''
      | IndexError \<Rightarrow> ''list index out of range''
      | FileNotFoundError \<Rightarrow> ''Downloaded audio file not found''
      | HTTPException code detail \<Rightarrow> detail
      | OtherError s \<Rightarrow> s)"

definition status_key :: "string \<Rightarrow> string" where
  "status_key video_id = ''status:'' @ video_id"

definition error_key :: "string \<Rightarrow> string" where
  "error_key video_id = ''error:'' @ video_id"

definition transcript_key :: "string \<Rightarrow> string" where
  "transcript_key video_id = ''transcript:'' @ video_id"

definition insights_key :: "string \<Rightarrow> string" where
  "insights_key video_id = ''insights:'' @ video_id"

text \<open>The argument \<open>redis_client\<close>: \<open>None\<close>, or the client of the one store.\<close>

datatype client = Redis

subsection \<open>\<open>get_video_details\<close> and \<open>get_mock_transcript\<close>\<close>

text \<open>The empty dict, read through \<open>get('title', ...)\<close> and \<open>get('description', ...)\<close>.\<close>

definition no_details :: snippet where
  "no_details = \<lparr>title = None, description = None\<rparr>"

definition get_video_details :: "env \<Rightarrow> string \<Rightarrow> world \<Rightarrow> snippet \<times> world" where
  "get_video_details e video_id w =
     (if \<not> truthy (YOUTUBE_API_KEY e) then (no_details, w)
      else (case videos_lookup e video_id of
              Inr (Some sn) \<Rightarrow> (sn, record_call (VideoDetails video_id) w)
            | Inr None \<Rightarrow> (no_details, record_call (VideoDetails video_id) w)
            | Inl ex \<Rightarrow> (no_details, record_call (VideoDetails video_id) w)))"

definition titled_mock_transcript :: "string \<Rightarrow> string \<Rightarrow> string" where
  "titled_mock_transcript the_title the_description = concat
     [''\<newline>'',
      ''        Welcome to this discussion on '',
      the_title,
      ''.\<newline>'',
      ''        \<newline>'',
      ''        '',
      the_description,
      ''\<newline>'',
      ''        \<newline>'',
      ''        This talk covers important sustainability topics including climate change, renewable energy,\<newline>'',
      ''        waste management, carbon emissions, and sustainable business practices.\<newline>'',
      ''        \<newline>'',
      ''        Companies need to measure and reduce their carbon footprint.\<newline>'',
      ''        Setting science-based targets is critical for aligning with global climate goals.\<newline>'',
      ''        \<newline>'',
      ''        Transitioning from fossil fuels to clean energy sources like solar and wind\<newline>'',
      ''        can significantly reduce environmental impact while often reducing costs in the long term.\<newline>'',
      ''        \<newline>'',
      ''        Implementing circular economy principles can turn waste into resources,\<newline>'',
      ''        reducing landfill use and creating new value streams from what was previously discarded.\<newline>'',
      ''        \<newline>'',
      ''        Thank you for joining this conversation on sustainability. The actions we take today will determine the world we leave\<newline>'',
      ''        for future generations.\<newline>'',
      ''        '']"

definition generic_mock_transcript :: "string" where
  "generic_mock_transcript = concat
     [''\<newline>'',
      ''        Welcome to this important discussion on sustainability. Today we'll explore how businesses can contribute to a healthier planet.\<newline>'',
      ''        \<newline>'',
      ''        Our first topic is climate change and carbon emissions. Companies need to measure and reduce their carbon footprint.\<newline>'',
      ''        Setting science-based targets is critical for aligning with global climate goals.\<newline>'',
      ''        \<newline>'',
      ''        Next, let's discuss renewable energy. Transitioning from fossil fuels to clean energy sources like solar and wind\<newline>'',
      ''        can significantly reduce environmental impact while often reducing costs in the long term.\<newline>'',
      ''        \<newline>'',
      ''        Waste management is another critical area. Implementing circular economy principles can turn waste into resources,\<newline>'',
      ''        reducing landfill use and creating new value streams from what was previously discarded.\<newline>'',
      ''        \<newline>'',
      ''        Water conservation should be a priority, especially in water-stressed regions. Businesses can implement water-efficient\<newline>'',
      ''        processes and technologies to reduce their water footprint.\<newline>'',
      ''        \<newline>'',
      ''        Finally, sustainable supply chains ensure that environmental and social standards are maintained throughout the entire\<newline>'',
      ''        production process, from raw materials to end products.\<newline>'',
      ''        \<newline>'',
      ''        Thank you for joining this conversation on sustainability. The actions we take today will determine the world we leave\<newline>'',
      ''        for future generations.\<newline>'',
      ''        '']"

definition get_mock_transcript :: "env \<Rightarrow> string \<Rightarrow> world \<Rightarrow> string \<times> world" where
  "get_mock_transcript e video_id w =
     (let (video_details, w') = get_video_details e video_id w;
          the_title = (case title video_details of Some s \<Rightarrow> s | None \<Rightarrow> ''sustainability topics'');
          the_description = (case description video_details of Some s \<Rightarrow> s | None \<Rightarrow> [])
      in if the_title \<noteq> [] \<and> the_description \<noteq> []
         then (titled_mock_transcript the_title the_description, w')
         else (generic_mock_transcript, w'))"

subsection \<open>\<open>fetch_transcript_from_api\<close> and \<open>fallback_whisper\<close>\<close>

text \<open>Both \<open>except\<close> clauses return \<open>None\<close>.\<close>

definition fetch_transcript_from_api :: "env \<Rightarrow> string \<Rightarrow> world \<Rightarrow> segment list option \<times> world" where
  "fetch_transcript_from_api e video_id w =
     (case api_get_transcript e video_id of
        Inr transcript_list \<Rightarrow> (Some transcript_list, record_call (TranscriptApi video_id) w)
      | Inl ex \<Rightarrow>
          if ex = TranscriptsDisabled \<or> ex = NoTranscriptFound
          then (None, record_call (TranscriptApi video_id) w)
          else (None, record_call (TranscriptApi video_id) w))"

text \<open>
  What \<open>fallback_whisper\<close> returns is a list of segment dicts on two of its paths
  and the string of \<open>get_mock_transcript\<close> on the two others.
\<close>

datatype whisper_return = SegmentList "segment list" | PlainString string

definition fallback_whisper :: "env \<Rightarrow> string \<Rightarrow> world \<Rightarrow> whisper_return \<times> world" where
  "fallback_whisper e video_id w =
     (if \<not> YT_DLP_AVAILABLE e
      then (let (mock, w') = get_mock_transcript e video_id w in (PlainString mock, w'))
      else if \<not> OPENAI_AVAILABLE e \<or> \<not> truthy (OPENAI_API_KEY e)
      then (let (mock, w') = get_mock_transcript e video_id w in (PlainString mock, w'))
      else (case whisper_pipeline e video_id of
              Inr response_text \<Rightarrow>
                (SegmentList
                   [\<lparr>seg_text = (case response_text of Some s \<Rightarrow> s | None \<Rightarrow> []),
                     seg_start = 0, seg_duration = 0\<rparr>],
                 record_call (WhisperPipeline video_id) w)
            | Inl ex \<Rightarrow>
                (let (mock_transcript, w') =
                       get_mock_transcript e video_id (record_call (WhisperPipeline video_id) w)
                 in (SegmentList [\<lparr>seg_text = mock_transcript, seg_start = 0, seg_duration = 0\<rparr>],
                     w'))))"

subsection \<open>\<open>get_transcript\<close> and \<open>fetch_transcript\<close>\<close>

text \<open>
  \<open>redis_client.setex(transcript_key, 86400, json.dumps(transcript_data))\<close> under
  \<open>if redis_client\<close>, followed by the \<open>return\<close> of the same dict.
\<close>

definition cache_and_return ::
  "string \<Rightarrow> client option \<Rightarrow> transcript_data \<Rightarrow> world \<Rightarrow> (error + json) \<times> world" where
  "cache_and_return video_id redis_client data w =
     (case redis_client of
        Some Redis \<Rightarrow>
          (Inr (JTranscript data),
           redis_setex (transcript_key video_id) 86400 (Json (JTranscript data)) w)
      | None \<Rightarrow> (Inr (JTranscript data), w))"

text \<open>The mock branch, which the source has twice: after an empty answer and in the inner \<open>except\<close>.\<close>

definition use_mock_transcript ::
  "env \<Rightarrow> string \<Rightarrow> client option \<Rightarrow> world \<Rightarrow> (error + json) \<times> world" where
  "use_mock_transcript e video_id redis_client w =
     (let (mock_transcript, w') = get_mock_transcript e video_id w;
          mock_segments = [\<lparr>seg_text = mock_transcript, seg_start = 0, seg_duration = 0\<rparr>]
      in cache_and_return video_id redis_client
           \<lparr>source = ''mock_data'', segments = mock_segments\<rparr> w')"

text \<open>The body of the inner \<open>try\<close>.\<close>

definition try_youtube ::
  "env \<Rightarrow> string \<Rightarrow> client option \<Rightarrow> world \<Rightarrow> (error + json) \<times> world" where
  "try_youtube e video_id redis_client w =
     (case fetch_transcript_from_api e video_id w of
        (Some transcript_list, w') \<Rightarrow>
          if transcript_list \<noteq> []
          then cache_and_return video_id redis_client
                 \<lparr>source = ''youtube_api'', segments = transcript_list\<rparr> w'
          else use_mock_transcript e video_id redis_client w'
      | (None, w') \<Rightarrow> use_mock_transcript e video_id redis_client w')"

text \<open>
  The two \<open>try\<close> statements around it: the inner one turns TranscriptsDisabled and
  NoTranscriptFound into the mock branch, the outer one records any other exception
  under the error and status keys and raises it again.
\<close>

definition record_failure :: "string \<Rightarrow> client option \<Rightarrow> error \<Rightarrow> world \<Rightarrow> world" where
  "record_failure video_id redis_client ex w =
     (case redis_client of
        Some Redis \<Rightarrow>
          redis_setex (status_key video_id) 3600 (Text ''error'')
            (redis_setex (error_key video_id) 3600 (Text (error_str ex)) w)
      | None \<Rightarrow> w)"

definition fetch_uncached ::
  "env \<Rightarrow> string \<Rightarrow> client option \<Rightarrow> world \<Rightarrow> (error + json) \<times> world" where
  "fetch_uncached e video_id redis_client w =
     (case try_youtube e video_id redis_client w of
        (Inr data, w') \<Rightarrow> (Inr data, w')
      | (Inl ex, w') \<Rightarrow>
          if ex = TranscriptsDisabled \<or> ex = NoTranscriptFound
          then (case use_mock_transcript e video_id redis_client w' of
                  (Inr data, w'') \<Rightarrow> (Inr data, w'')
                | (Inl ex', w'') \<Rightarrow> (Inl ex', record_failure video_id redis_client ex' w''))
          else (Inl ex, record_failure video_id redis_client ex w'))"

definition get_transcript ::
  "env \<Rightarrow> string \<Rightarrow> client option \<Rightarrow> world \<Rightarrow> (error + json) \<times> world" where
  "get_transcript e video_id redis_client w =
     (case redis_client of
        None \<Rightarrow> fetch_uncached e video_id None w
      | Some Redis \<Rightarrow>
          (let w1 = redis_delete (error_key video_id) w;
               w2 = redis_delete (status_key video_id) w1;
               w3 = redis_setex (status_key video_id) 3600 (Text ''pending'') w2;
               cached_transcript = redis_get (transcript_key video_id) w3
           in if found cached_transcript
              then (case cached_transcript of
                      Some v \<Rightarrow> (json_loads v, w3)
                    | None \<Rightarrow> fetch_uncached e video_id (Some Redis) w3)
              else fetch_uncached e video_id (Some Redis) w3))"

definition fetch_transcript ::
  "env \<Rightarrow> string \<Rightarrow> client option \<Rightarrow> world \<Rightarrow> (error + json) \<times> world" where
  "fetch_transcript e url redis_client w =
     (case extract_video_id url of
        Inl ex \<Rightarrow> (Inl ex, w)
      | Inr video_id \<Rightarrow> get_transcript e video_id redis_client w)"

section \<open>main.py\<close>

text \<open>The body \<open>{"video_id": ..., "status": ...}\<close> of the answer to a submission.\<close>

record submitted =
  video_id_of :: string
  status_of :: string

text \<open>
  \<open>process_video_request\<close>: the answer, and the state in which the background task
  \<open>process_video(video_id, video_url)\<close> will start once the answer is sent.
\<close>

definition process_video_request :: "string \<Rightarrow> world \<Rightarrow> (error + submitted) \<times> world" where
  "process_video_request video_url w =
     (case extract_video_id video_url of
        Inl ex \<Rightarrow> (Inl (HTTPException 400 (error_str ex)), w)
      | Inr video_id \<Rightarrow>
          (let w1 = redis_delete (status_key video_id) w;
               w2 = redis_delete (error_key video_id) w1;
               w3 = redis_setex (status_key video_id) 3600 (Text ''pending'') w2
           in (Inr \<lparr>video_id_of = video_id, status_of = ''pending''\<rparr>, w3)))"

text \<open>The value a status string shows in a message.\<close>

definition shown :: "rvalue \<Rightarrow> string" where
  "shown v = (case v of Text s \<Rightarrow> s | Json j \<Rightarrow> ''(json)'')"

definition get_video_status :: "string \<Rightarrow> world \<Rightarrow> string" where
  "get_video_status video_id w =
     (let status = redis_get (status_key video_id) w
      in if \<not> found status then ''not_found''
         else (case status of Some v \<Rightarrow> shown v | None \<Rightarrow> ''not_found''))"

definition get_video_insights :: "string \<Rightarrow> world \<Rightarrow> error + json" where
  "get_video_insights video_id w =
     (let status = redis_get (status_key video_id) w
      in if \<not> found status then Inl (HTTPException 404 ''Video not found'')
         else if status \<noteq> Some (Text ''completed'')
         then Inl (HTTPException 400
                     (''Video processing is '' @ (case status of Some v \<Rightarrow> shown v | None \<Rightarrow> [])))
         else (let stored = redis_get (insights_key video_id) w
               in if \<not> found stored then Inl (HTTPException 404 ''Insights not found'')
                  else (case stored of
                          Some v \<Rightarrow> json_loads v
                        | None \<Rightarrow> Inl (HTTPException 404 ''Insights not found''))))"

definition get_video_error :: "string \<Rightarrow> world \<Rightarrow> error + string" where
  "get_video_error video_id w =
     (let status = redis_get (status_key video_id) w
      in if \<not> found status \<or> status \<noteq> Some (Text ''error'')
         then Inl (HTTPException 404 ''No error found'')
         else (let stored = redis_get (error_key video_id) w
               in if found stored
                  then (case stored of Some v \<Rightarrow> Inr (shown v) | None \<Rightarrow> Inr ''Unknown error'')
                  else Inr ''Unknown error''))"

text \<open>\<open>transcript_data["segments"]\<close> on what \<open>fetch_transcript\<close> returned.\<close>

definition segments_of :: "json \<Rightarrow> error + segment list" where
  "segments_of j =
     (case j of
        JTranscript data \<Rightarrow> Inr (segments data)
      | JInsights l \<Rightarrow> Inl (TypeError ''list indices must be integers or slices, not str''))"

text \<open>The body of the \<open>try\<close> of \<open>process_video\<close>, after the three commands that open it.\<close>

definition process_video_work ::
  "env \<Rightarrow> string \<Rightarrow> string \<Rightarrow> world \<Rightarrow> (error + unit) \<times> world" where
  "process_video_work e video_id video_url w =
     (case fetch_transcript e video_url (Some Redis) w of
        (Inl ex, w') \<Rightarrow> (Inl ex, w')
      | (Inr transcript_data, w') \<Rightarrow>
          (case segments_of transcript_data of
             Inl ex \<Rightarrow> (Inl ex, w')
           | Inr transcript_segments \<Rightarrow>
               (case extract_insights e transcript_segments of
                  Inl ex \<Rightarrow> (Inl ex, w')
                | Inr found_insights \<Rightarrow>
                    (let w1 = redis_setex (insights_key video_id) 86400
                                (Json (JInsights found_insights)) w';
                         w2 = redis_setex (status_key video_id) 3600 (Text ''completed'') w1
                     in (Inr (), w2)))))"

definition process_video :: "env \<Rightarrow> string \<Rightarrow> string \<Rightarrow> world \<Rightarrow> world" where
  "process_video e video_id video_url w =
     (let w1 = redis_delete (status_key video_id) w;
          w2 = redis_delete (error_key video_id) w1;
          w3 = redis_setex (status_key video_id) 3600 (Text ''processing'') w2
      in case process_video_work e video_id video_url w3 of
           (Inr u, w') \<Rightarrow> w'
         | (Inl ex, w') \<Rightarrow>
             redis_setex (status_key video_id) 3600 (Text ''error'')
               (redis_setex (error_key video_id) 3600 (Text (error_str ex)) w'))"

text \<open>
  The asynchronous flow of one submission: the endpoint answers, and \<open>delay\<close> seconds
  later the background task runs.
\<close>

definition submit_and_process :: "env \<Rightarrow> string \<Rightarrow> nat \<Rightarrow> world \<Rightarrow> world" where
  "submit_and_process e video_url delay w =
     (case process_video_request video_url w of
        (Inl ex, w') \<Rightarrow> w'
      | (Inr answer, w') \<Rightarrow> process_video e (video_id_of answer) video_url (advance delay w'))"

text \<open>The status values a poller can read at time \<open>t\<close> from each store of a history.\<close>

definition status_trace :: "string \<Rightarrow> nat \<Rightarrow> store list \<Rightarrow> rvalue option list" where
  "status_trace video_id t hist = map (\<lambda>m. read_at t m (status_key video_id)) hist"

section \<open>Example configurations\<close>

text \<open>
  A deployment without optional packages and without API keys, in which the caption API
  finds no transcript: every external call fails or is not made.
\<close>

definition offline_env :: env where
  "offline_env =
     \<lparr>YT_DLP_AVAILABLE = False, OPENAI_AVAILABLE = False, OPENAI_API_KEY = None,
      YOUTUBE_API_KEY = None,
      api_get_transcript = (\<lambda>v. Inl NoTranscriptFound),
      videos_lookup = (\<lambda>v. Inr None),
      whisper_pipeline = (\<lambda>v. Inl FileNotFoundError),
      chat_completion = (\<lambda>t p. Inl (OtherError ''not configured'')),
      rng = (\<lambda>i. 0)\<rparr>"

text \<open>
  A deployment with the OpenAI package and key, in which every call of the chat model
  raises.
\<close>

definition failing_gpt_env :: env where
  "failing_gpt_env =
     \<lparr>YT_DLP_AVAILABLE = False, OPENAI_AVAILABLE = True, OPENAI_API_KEY = Some ''sk-test'',
      YOUTUBE_API_KEY = None,
      api_get_transcript = (\<lambda>v. Inl NoTranscriptFound),
      videos_lookup = (\<lambda>v. Inr None),
      whisper_pipeline = (\<lambda>v. Inl FileNotFoundError),
      chat_completion = (\<lambda>t p. Inl (OtherError ''RateLimitError'')),
      rng = (\<lambda>i. 0)\<rparr>"

definition good_segment :: segment where
  "good_segment = \<lparr>seg_text = ''good'', seg_start = 0, seg_duration = 0\<rparr>"

section \<open>Notions used in the statements\<close>

text \<open>The stores written between two states of one run, oldest first.\<close>

definition new_stores :: "world \<Rightarrow> world \<Rightarrow> store list" where
  "new_stores w w' = drop (length (history w)) (history w')"

text \<open>
  A run from \<open>w\<close> to \<open>w'\<close> that leaves the clock alone and in which every store
  written, and the store reached, satisfies \<open>Q\<close>.
\<close>

definition steps_ok :: "(store \<Rightarrow> bool) \<Rightarrow> world \<Rightarrow> world \<Rightarrow> bool" where
  "steps_ok Q w w' =
     (now w' = now w \<and> Q (kv w') \<and> (\<exists>hs. history w' = history w @ hs \<and> list_all Q hs))"

text \<open>The status key of the identifier does not hold "completed".\<close>

definition not_completed :: "string \<Rightarrow> store \<Rightarrow> bool" where
  "not_completed video_id m = (\<forall>x. m (status_key video_id) \<noteq> Some (Text ''completed'', x))"

text \<open>
  If the status key holds "completed", the insights key holds a list of insights that
  is not empty and that expires no earlier than the status.
\<close>

definition insights_ready :: "string \<Rightarrow> store \<Rightarrow> bool" where
  "insights_ready video_id m =
     (\<forall>x. m (status_key video_id) = Some (Text ''completed'', x) \<longrightarrow>
        (\<exists>l y. m (insights_key video_id) = Some (Json (JInsights l), y) \<and> l \<noteq> [] \<and> x \<le> y))"








section \<open>Properties of nlp\_pipeline.py\<close>

lemma sample_loop_length: "k \<le> length pool \<Longrightarrow> length (sample_loop r i pool k) = k"
  by (induction k arbitrary: pool i) (auto simp: Let_def)

lemma parse_insights_nonempty: "parse_insights c \<noteq> []"
  by (simp add: parse_insights_def Let_def)

lemma generate_insights_nonempty: "\<exists>l. generate_insights_with_gpt e t p = Inr l \<and> l \<noteq> []"
  by (auto simp: generate_insights_with_gpt_def gpt_unavailable_insights_def
        gpt_failure_insights_def parse_insights_nonempty split: sum.splits)

lemma topic_insights_get_nonempty: "topic_insights_get t \<noteq> []"
  by (auto simp: topic_insights_get_def topic_insights_def split: option.splits if_splits)

lemma analyze_sentiment_simple_label:
  "analyze_sentiment_simple txt topic \<in> {''positive'', ''negative'', ''neutral''}"
  unfolding analyze_sentiment_simple_def Let_def by simp

lemma process_topic_eq:
  "process_topic e ft topic =
     \<lparr>name = topic, sentiment = analyze_sentiment_simple ft topic,
      insights = (if truthy (OPENAI_API_KEY e) \<and> OPENAI_AVAILABLE e
                  then (case generate_insights_with_gpt e ft topic of
                          Inr l \<Rightarrow> l | Inl ex \<Rightarrow> topic_insights_get topic)
                  else topic_insights_get topic)\<rparr>"
  by (simp add: process_topic_def topic_body_def Let_def)

lemma process_topic_insights_nonempty: "insights (process_topic e ft topic) \<noteq> []"
  using generate_insights_nonempty[of e ft topic]
  by (auto simp: process_topic_eq topic_insights_get_nonempty)

lemma topic_insights_length: "length topic_insights = 8"
  by (simp add: topic_insights_def)

lemma extract_insights_eq:
  "extract_insights e segs =
     Inr (map (process_topic e (full_text_of segs))
            (sample_loop (rng e) 0 (map fst topic_insights) 6))"
  by (simp add: extract_insights_def random_sample_def topic_insights_length)

lemma selected_length: "length (sample_loop r 0 (map fst topic_insights) 6) = 6"
  by (intro sample_loop_length) (simp add: topic_insights_length)

lemma good_batch_sentiments:
  "map_sum id (map sentiment) (extract_insights failing_gpt_env [good_segment])
     = Inr [''positive'', ''positive'', ''positive'', ''positive'', ''positive'', ''positive'']"
  by code_simp

lemma good_batch_names:
  "map_sum id (map name) (extract_insights failing_gpt_env [good_segment])
     = Inr [''Climate Change'', ''Circular Economy'', ''Sustainable Supply Chain'',
            ''Water Conservation'', ''Corporate Sustainability'', ''Carbon Emissions'']"
  by code_simp

lemma good_text_positive: "analyze_sentiment_simple ''good'' topic = ''positive''"
proof -
  have "analyze_sentiment_simple ''good'' [] = ''positive''" by code_simp
  then show ?thesis by (simp add: analyze_sentiment_simple_def)
qed

text \<open>
  Claim C9. Whatever the transcript segments and the configuration are,
  \<open>extract_insights\<close> returns (it does not raise) exactly six records, and every
  record has a sentiment among "positive", "negative" and "neutral" and a list of
  insights that is not empty.
\<close>

theorem extract_insights_six_valid_records:
  "\<exists>rs. extract_insights e transcript_segments = Inr rs \<and> length rs = 6 \<and>
     (\<forall>r \<in> set rs. sentiment r \<in> {''positive'', ''negative'', ''neutral''} \<and> insights r \<noteq> [])"
proof -
  let ?ft = "full_text_of transcript_segments"
  let ?rs = "map (process_topic e ?ft) (sample_loop (rng e) 0 (map fst topic_insights) 6)"
  have "extract_insights e transcript_segments = Inr ?rs"
    by (rule extract_insights_eq)
  moreover have "length ?rs = 6"
    by (simp add: selected_length)
  moreover have "\<forall>r \<in> set ?rs. sentiment r \<in> {''positive'', ''negative'', ''neutral''} \<and> insights r \<noteq> []"
  proof
    fix r assume "r \<in> set ?rs"
    then obtain t where r: "r = process_topic e ?ft t" by auto
    have "sentiment r = analyze_sentiment_simple ?ft t"
      by (simp add: r process_topic_eq)
    with analyze_sentiment_simple_label[of ?ft t]
    have "sentiment r \<in> {''positive'', ''negative'', ''neutral''}" by simp
    moreover have "insights r \<noteq> []"
      unfolding r by (rule process_topic_insights_nonempty)
    ultimately show "sentiment r \<in> {''positive'', ''negative'', ''neutral''} \<and> insights r \<noteq> []"
      by simp
  qed
  ultimately show ?thesis by blast
qed

theorem extract_insights_six_valid_records_witness:
  "\<exists>rs. extract_insights failing_gpt_env [good_segment] = Inr rs \<and> rs \<noteq> [] \<and>
     (\<forall>r \<in> set rs. sentiment r \<in> {''positive'', ''negative'', ''neutral''} \<and> insights r \<noteq> [])"
  using extract_insights_six_valid_records[of failing_gpt_env "[good_segment]"] by auto

text \<open>
  Claim C10. The label computed by \<open>analyze_sentiment_simple\<close> is the same for any
  two topics, and every record of one \<open>extract_insights\<close> batch carries the label of
  the joined transcript text, so the six sentiments of a batch are equal.
\<close>

theorem sentiment_ignores_topic:
  "analyze_sentiment_simple txt topic1 = analyze_sentiment_simple txt topic2 \<and>
   (\<exists>rs. extract_insights e transcript_segments = Inr rs \<and>
      (\<forall>r \<in> set rs. sentiment r = analyze_sentiment_simple (full_text_of transcript_segments) topic1))"
proof
  show "analyze_sentiment_simple txt topic1 = analyze_sentiment_simple txt topic2"
    by (simp add: analyze_sentiment_simple_def)
next
  have "\<forall>t. sentiment (process_topic e (full_text_of transcript_segments) t)
          = analyze_sentiment_simple (full_text_of transcript_segments) topic1"
    by (simp add: process_topic_eq analyze_sentiment_simple_def)
  then show "\<exists>rs. extract_insights e transcript_segments = Inr rs \<and>
      (\<forall>r \<in> set rs. sentiment r = analyze_sentiment_simple (full_text_of transcript_segments) topic1)"
    by (auto simp: extract_insights_eq)
qed

theorem sentiment_ignores_topic_witness:
  "analyze_sentiment_simple ''good'' ''Climate Change'' = analyze_sentiment_simple ''good'' ''Water Conservation'' \<and>
   (\<exists>rs. extract_insights failing_gpt_env [good_segment] = Inr rs \<and> rs \<noteq> [] \<and>
      (\<forall>r \<in> set rs. sentiment r = ''positive''))"
proof -
  have ft: "full_text_of [good_segment] = ''good''"
    by (simp add: full_text_of_def good_segment_def)
  from sentiment_ignores_topic[of "''good''" "''Climate Change''" "''Water Conservation''"
      failing_gpt_env "[good_segment]"]
  obtain rs where eq: "analyze_sentiment_simple ''good'' ''Climate Change''
        = analyze_sentiment_simple ''good'' ''Water Conservation''"
    and rs: "extract_insights failing_gpt_env [good_segment] = Inr rs"
    and all: "\<forall>r \<in> set rs. sentiment r = analyze_sentiment_simple (full_text_of [good_segment]) ''Climate Change''"
    by blast
  from good_batch_names rs have "rs \<noteq> []" by auto
  with eq rs all show ?thesis by (simp add: ft good_text_positive)
qed

text \<open>
  Claim C8, as the code has it. When the OpenAI package and key are present and the
  call of the chat model raises for a topic, \<open>extract_insights\<close> still returns six
  records, and the record of that topic carries the two generic insights of
  \<open>generate_insights_with_gpt\<close>, a list that is not empty. Its sentiment is the label
  that \<open>analyze_sentiment_simple\<close> computes from the transcript text, as for every
  other topic; it is "neutral" only when that label is.
\<close>

theorem generator_failure_keeps_batch:
  assumes "truthy (OPENAI_API_KEY e)" and "OPENAI_AVAILABLE e"
    and "chat_completion e (limit_text (full_text_of transcript_segments)) topic = Inl ex"
  shows "\<exists>rs. extract_insights e transcript_segments = Inr rs \<and> length rs = 6 \<and>
     (\<forall>r \<in> set rs. name r = topic \<longrightarrow>
        sentiment r = analyze_sentiment_simple (full_text_of transcript_segments) topic \<and>
        insights r = gpt_failure_insights topic \<and> insights r \<noteq> [])"
proof -
  let ?ft = "full_text_of transcript_segments"
  let ?rs = "map (process_topic e ?ft) (sample_loop (rng e) 0 (map fst topic_insights) 6)"
  have gen: "generate_insights_with_gpt e ?ft topic = Inr (gpt_failure_insights topic)"
    using assms by (simp add: generate_insights_with_gpt_def)
  have rec: "process_topic e ?ft topic =
      \<lparr>name = topic, sentiment = analyze_sentiment_simple ?ft topic,
       insights = gpt_failure_insights topic\<rparr>"
    using assms(1,2) by (simp add: process_topic_eq gen)
  have "extract_insights e transcript_segments = Inr ?rs"
    by (rule extract_insights_eq)
  moreover have "length ?rs = 6"
    by (simp add: selected_length)
  moreover have "\<forall>r \<in> set ?rs. name r = topic \<longrightarrow>
        sentiment r = analyze_sentiment_simple ?ft topic \<and>
        insights r = gpt_failure_insights topic \<and> insights r \<noteq> []"
  proof (intro ballI impI)
    fix r assume "r \<in> set ?rs" and nm: "name r = topic"
    then obtain t where r: "r = process_topic e ?ft t" by auto
    with nm have "t = topic" by (simp add: process_topic_eq)
    with r rec show "sentiment r = analyze_sentiment_simple ?ft topic \<and>
        insights r = gpt_failure_insights topic \<and> insights r \<noteq> []"
      by (simp add: gpt_failure_insights_def)
  qed
  ultimately show ?thesis by blast
qed

theorem generator_failure_keeps_batch_witness:
  "\<exists>rs. extract_insights failing_gpt_env [good_segment] = Inr rs \<and> length rs = 6 \<and>
     ''Climate Change'' \<in> set (map name rs) \<and>
     (\<forall>r \<in> set rs. name r = ''Climate Change'' \<longrightarrow>
        sentiment r = ''positive'' \<and> insights r \<noteq> [])"
proof -
  have ft: "full_text_of [good_segment] = ''good''"
    by (simp add: full_text_of_def good_segment_def)
  have "truthy (OPENAI_API_KEY failing_gpt_env)" and "OPENAI_AVAILABLE failing_gpt_env"
    and "chat_completion failing_gpt_env (limit_text (full_text_of [good_segment])) ''Climate Change''
           = Inl (OtherError ''RateLimitError'')"
    by (simp_all add: failing_gpt_env_def truthy_def)
  from generator_failure_keeps_batch[OF this]
  obtain rs where rs: "extract_insights failing_gpt_env [good_segment] = Inr rs"
    and len: "length rs = 6"
    and rec: "\<forall>r \<in> set rs. name r = ''Climate Change'' \<longrightarrow>
        sentiment r = analyze_sentiment_simple (full_text_of [good_segment]) ''Climate Change'' \<and>
        insights r = gpt_failure_insights ''Climate Change'' \<and> insights r \<noteq> []"
    by blast
  from good_batch_names rs have "''Climate Change'' \<in> set (map name rs)" by auto
  with rs len rec show ?thesis by (auto simp: ft good_text_positive)
qed

text \<open>
  The claim C8 as the specification states it fails: with a chat model that raises for
  every topic and the transcript text "good", the record of "Climate Change" (and of
  every other selected topic) has the sentiment "positive", not "neutral".
\<close>

theorem generator_failure_not_neutral:
  "chat_completion failing_gpt_env (limit_text (full_text_of [good_segment])) ''Climate Change''
     = Inl (OtherError ''RateLimitError'') \<and>
   map_sum id (map name) (extract_insights failing_gpt_env [good_segment])
     = Inr [''Climate Change'', ''Circular Economy'', ''Sustainable Supply Chain'',
            ''Water Conservation'', ''Corporate Sustainability'', ''Carbon Emissions''] \<and>
   map_sum id (map sentiment) (extract_insights failing_gpt_env [good_segment])
     = Inr [''positive'', ''positive'', ''positive'', ''positive'', ''positive'', ''positive'']"
  using good_batch_names good_batch_sentiments by (simp add: failing_gpt_env_def)

section \<open>Properties of the store and of youtube\_client.py\<close>

lemma key_distinct [simp]:
  "status_key a \<noteq> error_key b" "status_key a \<noteq> transcript_key b" "status_key a \<noteq> insights_key b"
  "error_key a \<noteq> status_key b" "error_key a \<noteq> transcript_key b" "error_key a \<noteq> insights_key b"
  "transcript_key a \<noteq> status_key b" "transcript_key a \<noteq> error_key b" "transcript_key a \<noteq> insights_key b"
  "insights_key a \<noteq> status_key b" "insights_key a \<noteq> error_key b" "insights_key a \<noteq> transcript_key b"
  by (simp_all add: status_key_def error_key_def transcript_key_def insights_key_def)

lemma get_video_details_world:
  "snd (get_video_details e v w) =
     (if truthy (YOUTUBE_API_KEY e) then record_call (VideoDetails v) w else w)"
  by (simp add: get_video_details_def split: sum.splits option.splits)

lemma get_mock_transcript_world:
  "snd (get_mock_transcript e v w) =
     (if truthy (YOUTUBE_API_KEY e) then record_call (VideoDetails v) w else w)"
  by (simp add: get_mock_transcript_def Let_def case_prod_beta get_video_details_world)

lemma generic_mock_nonempty: "generic_mock_transcript \<noteq> []"
  by (simp add: generic_mock_transcript_def)

lemma titled_mock_nonempty: "titled_mock_transcript a b \<noteq> []"
  by (simp add: titled_mock_transcript_def)

lemma get_mock_transcript_nonempty: "fst (get_mock_transcript e v w) \<noteq> []"
  by (simp add: get_mock_transcript_def Let_def case_prod_beta generic_mock_nonempty titled_mock_nonempty)

lemma fetch_api_world:
  "snd (fetch_transcript_from_api e v w) = record_call (TranscriptApi v) w"
  by (simp add: fetch_transcript_from_api_def split: sum.splits)

lemma mock_world_store [simp]:
  "kv (snd (get_mock_transcript e v w)) = kv w" "now (snd (get_mock_transcript e v w)) = now w"
  "history (snd (get_mock_transcript e v w)) = history w"
  by (simp_all add: get_mock_transcript_world record_call_def)

lemma record_call_store [simp]:
  "kv (record_call c w) = kv w" "now (record_call c w) = now w"
  "history (record_call c w) = history w" "calls (record_call c w) = calls w @ [c]"
  by (simp_all add: record_call_def)

lemma setex_store [simp]:
  "kv (redis_setex k ttl x w) = (kv w)(k \<mapsto> (x, now w + ttl))" "now (redis_setex k ttl x w) = now w"
  "history (redis_setex k ttl x w) = history w @ [(kv w)(k \<mapsto> (x, now w + ttl))]"
  "calls (redis_setex k ttl x w) = calls w"
  by (simp_all add: redis_setex_def commit_def)

lemma delete_store [simp]:
  "kv (redis_delete k w) = (kv w)(k := None)" "now (redis_delete k w) = now w"
  "history (redis_delete k w) = history w @ [(kv w)(k := None)]"
  "calls (redis_delete k w) = calls w"
  by (simp_all add: redis_delete_def commit_def)

lemma advance_store [simp]:
  "kv (advance d w) = kv w" "now (advance d w) = now w + d"
  "history (advance d w) = history w" "calls (advance d w) = calls w"
  by (simp_all add: advance_def)

lemma steps_ok_refl: "Q (kv w) \<Longrightarrow> steps_ok Q w w"
  by (simp add: steps_ok_def)

lemma ext_commit: "steps_ok Q w0 w \<Longrightarrow> Q m \<Longrightarrow> steps_ok Q w0 (commit m w)"
  by (auto simp: steps_ok_def commit_def)

lemma ext_call: "steps_ok Q w0 w \<Longrightarrow> steps_ok Q w0 (record_call c w)"
  by (auto simp: steps_ok_def record_call_def)

lemma ext_delete: "steps_ok (not_completed v) w0 w \<Longrightarrow> steps_ok (not_completed v) w0 (redis_delete k w)"
  unfolding redis_delete_def
  by (rule ext_commit) (auto simp: steps_ok_def not_completed_def)

lemma ext_setex:
  "steps_ok (not_completed v) w0 w \<Longrightarrow> k \<noteq> status_key v \<or> x \<noteq> Text ''completed''
     \<Longrightarrow> steps_ok (not_completed v) w0 (redis_setex k ttl x w)"
  unfolding redis_setex_def
  by (rule ext_commit) (auto simp: steps_ok_def not_completed_def)

lemma ext_mock:
  "steps_ok Q w0 w \<Longrightarrow> steps_ok Q w0 (snd (get_mock_transcript e v' w))"
  by (simp add: get_mock_transcript_world ext_call)

lemma ext_cache_and_return:
  "steps_ok (not_completed v) w0 w \<Longrightarrow> steps_ok (not_completed v) w0 (snd (cache_and_return v' c d w))"
  by (cases c) (auto simp: cache_and_return_def intro!: ext_setex split: client.splits)

lemma ext_use_mock:
  "steps_ok (not_completed v) w0 w \<Longrightarrow> steps_ok (not_completed v) w0 (snd (use_mock_transcript e v' c w))"
  by (simp add: use_mock_transcript_def Let_def case_prod_beta ext_cache_and_return ext_mock)

lemma ext_try_youtube:
  "steps_ok (not_completed v) w0 w \<Longrightarrow> steps_ok (not_completed v) w0 (snd (try_youtube e v' c w))"
proof -
  assume a: "steps_ok (not_completed v) w0 w"
  obtain r w1 where f: "fetch_transcript_from_api e v' w = (r, w1)" by force
  with fetch_api_world[of e v' w] have w1: "w1 = record_call (TranscriptApi v') w" by simp
  from a have "steps_ok (not_completed v) w0 w1" unfolding w1 by (rule ext_call)
  then show ?thesis
    by (simp add: try_youtube_def f ext_cache_and_return ext_use_mock split: option.splits)
qed

lemma ext_record_failure:
  "steps_ok (not_completed v) w0 w \<Longrightarrow> steps_ok (not_completed v) w0 (record_failure v' c ex w)"
  by (cases c) (auto simp: record_failure_def intro!: ext_setex split: client.splits)

lemma ext_fetch_uncached:
  "steps_ok (not_completed v) w0 w \<Longrightarrow> steps_ok (not_completed v) w0 (snd (fetch_uncached e v' c w))"
proof -
  assume a: "steps_ok (not_completed v) w0 w"
  obtain r w1 where t: "try_youtube e v' c w = (r, w1)" by force
  with ext_try_youtube[OF a, of e v' c] have s1: "steps_ok (not_completed v) w0 w1" by simp
  obtain r2 w2 where m: "use_mock_transcript e v' c w1 = (r2, w2)" by force
  with ext_use_mock[OF s1, of e v' c] have s2: "steps_ok (not_completed v) w0 w2" by simp
  show ?thesis
    by (auto simp: fetch_uncached_def t m s1 s2 ext_record_failure split: sum.splits)
qed

lemma ext_get_transcript:
  "steps_ok (not_completed v) w0 w \<Longrightarrow> steps_ok (not_completed v) w0 (snd (get_transcript e v' c w))"
  by (cases c)
     (auto simp: get_transcript_def Let_def split: client.splits option.splits
           intro!: ext_fetch_uncached ext_setex ext_delete)

lemma ext_fetch_transcript:
  "steps_ok (not_completed v) w0 w \<Longrightarrow> steps_ok (not_completed v) w0 (snd (fetch_transcript e url c w))"
  by (auto simp: fetch_transcript_def ext_get_transcript split: sum.splits)


lemma use_mock_result:
  "\<exists>mock w'. mock \<noteq> [] \<and>
     use_mock_transcript e v c w =
       (Inr (JTranscript \<lparr>source = ''mock_data'',
              segments = [\<lparr>seg_text = mock, seg_start = 0, seg_duration = 0\<rparr>]\<rparr>), w') \<and>
     now w' = now w \<and>
     (c = Some Redis \<longrightarrow> kv w' (transcript_key v) =
        Some (Json (JTranscript \<lparr>source = ''mock_data'',
              segments = [\<lparr>seg_text = mock, seg_start = 0, seg_duration = 0\<rparr>]\<rparr>), now w + 86400))"
proof -
  let ?mock = "fst (get_mock_transcript e v w)"
  let ?d = "\<lparr>source = ''mock_data'',
              segments = [\<lparr>seg_text = ?mock, seg_start = 0, seg_duration = 0\<rparr>]\<rparr>"
  let ?w' = "snd (cache_and_return v c ?d (snd (get_mock_transcript e v w)))"
  have eq: "use_mock_transcript e v c w = (Inr (JTranscript ?d), ?w')"
    by (cases c) (simp_all add: use_mock_transcript_def case_prod_beta Let_def cache_and_return_def
          split: client.splits)
  have "now ?w' = now w"
    by (cases c) (simp_all add: cache_and_return_def split: client.splits)
  moreover have "c = Some Redis \<longrightarrow> kv ?w' (transcript_key v) = Some (Json (JTranscript ?d), now w + 86400)"
    by (simp add: cache_and_return_def)
  ultimately show ?thesis
    using eq get_mock_transcript_nonempty[of e v w] by blast
qed

lemma fetch_uncached_no_captions:
  assumes "\<forall>l. api_get_transcript e v = Inr l \<longrightarrow> l = []"
  shows "fetch_uncached e v c w = use_mock_transcript e v c (record_call (TranscriptApi v) w)"
proof -
  have t: "try_youtube e v c w = use_mock_transcript e v c (record_call (TranscriptApi v) w)"
    using assms
    by (auto simp: try_youtube_def fetch_transcript_from_api_def split: sum.splits)
  obtain mock w' where "use_mock_transcript e v c (record_call (TranscriptApi v) w) =
       (Inr (JTranscript \<lparr>source = ''mock_data'',
              segments = [\<lparr>seg_text = mock, seg_start = 0, seg_duration = 0\<rparr>]\<rparr>), w')"
    using use_mock_result[of e v c "record_call (TranscriptApi v) w"] by blast
  then show ?thesis by (simp add: fetch_uncached_def t)
qed

lemma fetch_uncached_captions:
  assumes "api_get_transcript e v = Inr l" and "l \<noteq> []"
  shows "fetch_uncached e v c w =
     cache_and_return v c \<lparr>source = ''youtube_api'', segments = l\<rparr> (record_call (TranscriptApi v) w)"
  using assms
  by (cases c) (auto simp: fetch_uncached_def try_youtube_def fetch_transcript_from_api_def
        cache_and_return_def split: client.splits)

text \<open>The state in which \<open>get_transcript\<close> looks into the cache.\<close>

lemma get_transcript_miss:
  assumes "\<not> found (redis_get (transcript_key v) w)"
  shows "get_transcript e v (Some Redis) w =
     fetch_uncached e v (Some Redis)
       (redis_setex (status_key v) 3600 (Text ''pending'')
          (redis_delete (status_key v) (redis_delete (error_key v) w)))"
  using assms
  by (auto simp: get_transcript_def Let_def redis_get_def read_at_def split: option.splits)

lemma get_transcript_hit:
  assumes "kv w (transcript_key v) = Some (Json j, expiry)" and "now w < expiry"
  shows "get_transcript e v (Some Redis) w =
     (Inr j, redis_setex (status_key v) 3600 (Text ''pending'')
               (redis_delete (status_key v) (redis_delete (error_key v) w)))"
  using assms
  by (simp add: get_transcript_def Let_def redis_get_def read_at_def found_def json_loads_def)

lemma extract_insights_nonempty: "extract_insights e segs = Inr l \<Longrightarrow> l \<noteq> []"
  using selected_length[of "rng e"] by (auto simp: extract_insights_eq)

lemma not_completed_ready: "not_completed v m \<Longrightarrow> insights_ready v m"
  by (simp add: not_completed_def insights_ready_def)

lemma steps_ok_weaken:
  "steps_ok Q w0 w \<Longrightarrow> (\<And>m. Q m \<Longrightarrow> R m) \<Longrightarrow> steps_ok R w0 w"
  by (auto simp: steps_ok_def list_all_iff)

lemma steps_ok_first:
  "steps_ok Q (commit m w) w' \<Longrightarrow> Q m \<Longrightarrow> \<exists>hs. history w' = history w @ hs \<and> list_all Q hs \<and> now w' = now w"
  by (auto simp: steps_ok_def commit_def)

lemma process_video_work_steps:
  assumes "steps_ok (not_completed v) w0 w"
  shows "steps_ok (insights_ready v) w0 (snd (process_video_work e v url w))"
    and "\<And>ex. fst (process_video_work e v url w) = Inl ex \<Longrightarrow>
           steps_ok (not_completed v) w0 (snd (process_video_work e v url w))"
proof -
  obtain r w1 where f: "fetch_transcript e url (Some Redis) w = (r, w1)" by force
  with ext_fetch_transcript[OF assms, of e url "Some Redis"]
  have s1: "steps_ok (not_completed v) w0 w1" by simp
  have s1': "steps_ok (insights_ready v) w0 w1"
    using s1 not_completed_ready by (rule steps_ok_weaken)
  have ok: "\<And>l. l \<noteq> [] \<Longrightarrow> steps_ok (insights_ready v) w0
      (redis_setex (status_key v) 3600 (Text ''completed'')
         (redis_setex (insights_key v) 86400 (Json (JInsights l)) w1))"
    using s1
    by (auto simp: steps_ok_def redis_setex_def commit_def insights_ready_def not_completed_def
             list_all_iff)
  show "steps_ok (insights_ready v) w0 (snd (process_video_work e v url w))"
    using s1' ok extract_insights_nonempty
    by (auto simp: process_video_work_def f Let_def split: sum.splits)
  show "\<And>ex. fst (process_video_work e v url w) = Inl ex \<Longrightarrow>
           steps_ok (not_completed v) w0 (snd (process_video_work e v url w))"
    using s1 by (auto simp: process_video_work_def f Let_def split: sum.splits)
qed

lemma process_video_history:
  "\<exists>hs. history (process_video e v url w) = history w @ hs \<and> hs \<noteq> [] \<and> list_all (insights_ready v) hs"
proof -
  let ?w1 = "redis_delete (status_key v) w"
  let ?w3 = "redis_setex (status_key v) 3600 (Text ''processing'') (redis_delete (error_key v) ?w1)"
  have q1: "not_completed v (kv ?w1)"
    by (simp add: redis_delete_def commit_def not_completed_def)
  have s3: "steps_ok (not_completed v) ?w1 ?w3"
    by (intro ext_setex ext_delete steps_ok_refl q1) simp
  obtain r w4 where pw: "process_video_work e v url ?w3 = (r, w4)" by force
  have fin: "steps_ok (insights_ready v) ?w1 (process_video e v url w)"
  proof (cases r)
    case (Inr u)
    with process_video_work_steps(1)[OF s3, of e url] pw show ?thesis
      by (simp add: process_video_def Let_def)
  next
    case (Inl ex)
    with process_video_work_steps(2)[OF s3, of e url ex] pw
    have "steps_ok (not_completed v) ?w1 w4" by simp
    then have "steps_ok (not_completed v) ?w1
        (redis_setex (status_key v) 3600 (Text ''error'')
           (redis_setex (error_key v) 3600 (Text (error_str ex)) w4))"
      by (intro ext_setex) simp_all
    then show ?thesis
      using Inl pw not_completed_ready
      by (auto simp: process_video_def Let_def intro: steps_ok_weaken)
  qed
  then obtain hs where "history (process_video e v url w) = history ?w1 @ hs"
    and "list_all (insights_ready v) hs"
    by (auto simp: steps_ok_def)
  moreover have "history ?w1 = history w @ [kv ?w1]"
    by (simp add: redis_delete_def commit_def)
  ultimately have "history (process_video e v url w) = history w @ (kv ?w1 # hs)
      \<and> list_all (insights_ready v) (kv ?w1 # hs)"
    using q1 not_completed_ready by simp
  then show ?thesis by blast
qed

lemma insights_ready_poll:
  assumes "insights_ready v m" and "read_at t m (status_key v) = Some (Text ''completed'')"
  shows "\<exists>l. l \<noteq> [] \<and> read_at t m (insights_key v) = Some (Json (JInsights l)) \<and>
           get_video_insights v (request_world t m) = Inr (JInsights l)"
proof -
  from assms(2) obtain x where st: "m (status_key v) = Some (Text ''completed'', x)" and tx: "t < x"
    by (auto simp: read_at_def split: option.splits if_splits)
  with assms(1) obtain l y where ins: "m (insights_key v) = Some (Json (JInsights l), y)"
    and l: "l \<noteq> []" and xy: "x \<le> y"
    by (auto simp: insights_ready_def)
  from tx xy have ty: "t < y" by simp
  have r: "read_at t m (insights_key v) = Some (Json (JInsights l))"
    by (simp add: read_at_def ins ty)
  have "get_video_insights v (request_world t m) = Inr (JInsights l)"
    using assms(2) r
    by (simp add: get_video_insights_def redis_get_def request_world_def found_def json_loads_def Let_def)
  with l r show ?thesis by blast
qed

section \<open>Claims about youtube\_client.py and main.py\<close>

text \<open>
  Claim C3. When the caption API yields no segments for an identifier (it raises, or
  it returns an empty list) and the call gets as far as the API, that is, no store is
  given or the transcript key reads as absent, \<open>get_transcript\<close> returns the source
  "mock_data" with exactly one segment whose text is not empty. With a store the same
  dict is written under the transcript key with a lifetime of 86400 seconds, and a
  non-empty answer of the API is written under the same key with the same lifetime.
\<close>

theorem no_captions_gives_cached_mock:
  assumes "\<forall>l. api_get_transcript e video_id = Inr l \<longrightarrow> l = []"
    and "redis_client = Some Redis \<longrightarrow> \<not> found (redis_get (transcript_key video_id) w)"
  shows "\<exists>mock w'. mock \<noteq> [] \<and>
     get_transcript e video_id redis_client w =
       (Inr (JTranscript \<lparr>source = ''mock_data'',
              segments = [\<lparr>seg_text = mock, seg_start = 0, seg_duration = 0\<rparr>]\<rparr>), w') \<and>
     (redis_client = Some Redis \<longrightarrow>
        kv w' (transcript_key video_id) =
          Some (Json (JTranscript \<lparr>source = ''mock_data'',
              segments = [\<lparr>seg_text = mock, seg_start = 0, seg_duration = 0\<rparr>]\<rparr>), now w + 86400) \<and>
        (\<forall>l. l \<noteq> [] \<longrightarrow>
           kv (snd (get_transcript (e\<lparr>api_get_transcript := \<lambda>v. Inr l\<rparr>) video_id redis_client w))
              (transcript_key video_id) =
             Some (Json (JTranscript \<lparr>source = ''youtube_api'', segments = l\<rparr>), now w + 86400)))"
proof (cases redis_client)
  case None
  then have "get_transcript e video_id redis_client w
      = use_mock_transcript e video_id None (record_call (TranscriptApi video_id) w)"
    by (simp add: get_transcript_def fetch_uncached_no_captions[OF assms(1)])
  with use_mock_result[of e video_id None "record_call (TranscriptApi video_id) w"] None
  show ?thesis by auto
next
  case (Some c)
  then have c: "redis_client = Some Redis" by (cases c) simp
  let ?w3 = "redis_setex (status_key video_id) 3600 (Text ''pending'')
          (redis_delete (status_key video_id) (redis_delete (error_key video_id) w))"
  from assms(2) c have miss: "\<not> found (redis_get (transcript_key video_id) w)" by simp
  have g: "get_transcript e video_id redis_client w
      = use_mock_transcript e video_id (Some Redis) (record_call (TranscriptApi video_id) ?w3)"
    by (simp add: c get_transcript_miss[OF miss] fetch_uncached_no_captions[OF assms(1)])
  have p: "\<And>l. l \<noteq> [] \<Longrightarrow>
      kv (snd (get_transcript (e\<lparr>api_get_transcript := \<lambda>v. Inr l\<rparr>) video_id redis_client w))
              (transcript_key video_id) =
             Some (Json (JTranscript \<lparr>source = ''youtube_api'', segments = l\<rparr>), now w + 86400)"
    by (simp add: c get_transcript_miss[OF miss] fetch_uncached_captions cache_and_return_def)
  from use_mock_result[of e video_id "Some Redis" "record_call (TranscriptApi video_id) ?w3"] g p c
  show ?thesis by auto
qed

theorem no_captions_gives_cached_mock_witness:
  "\<exists>mock w'. mock \<noteq> [] \<and>
     get_transcript offline_env ''abc123'' (Some Redis) (request_world 0 Map.empty) =
       (Inr (JTranscript \<lparr>source = ''mock_data'',
              segments = [\<lparr>seg_text = mock, seg_start = 0, seg_duration = 0\<rparr>]\<rparr>), w') \<and>
     kv w' (transcript_key ''abc123'') =
          Some (Json (JTranscript \<lparr>source = ''mock_data'',
              segments = [\<lparr>seg_text = mock, seg_start = 0, seg_duration = 0\<rparr>]\<rparr>), 86400)"
proof -
  have a: "\<forall>l. api_get_transcript offline_env ''abc123'' = Inr l \<longrightarrow> l = []"
    by (simp add: offline_env_def)
  have b: "Some Redis = Some Redis \<longrightarrow>
      \<not> found (redis_get (transcript_key ''abc123'') (request_world 0 Map.empty))"
    by (simp add: redis_get_def read_at_def request_world_def found_def)
  from no_captions_gives_cached_mock[OF a b]
  show ?thesis by (auto simp: request_world_def)
qed

text \<open>
  Claim C4. When the transcript key holds a JSON value that is still alive \<open>d\<close>
  seconds from now, a call of \<open>get_transcript\<close> and a second call \<open>d\<close> seconds
  later both return that value; neither call reaches an external provider, and the
  cached entry is left as it was.
\<close>

theorem warm_cache_idempotent:
  assumes "kv w (transcript_key video_id) = Some (Json j, expiry)" and "now w + d < expiry"
  shows "fst (get_transcript e video_id (Some Redis) w) = Inr j \<and>
         fst (get_transcript e video_id (Some Redis)
                (advance d (snd (get_transcript e video_id (Some Redis) w)))) = Inr j \<and>
         calls (snd (get_transcript e video_id (Some Redis)
                (advance d (snd (get_transcript e video_id (Some Redis) w))))) = calls w \<and>
         kv (snd (get_transcript e video_id (Some Redis)
                (advance d (snd (get_transcript e video_id (Some Redis) w))))) (transcript_key video_id)
           = Some (Json j, expiry)"
proof -
  let ?w1 = "redis_setex (status_key video_id) 3600 (Text ''pending'')
               (redis_delete (status_key video_id) (redis_delete (error_key video_id) w))"
  from assms have now1: "now w < expiry" by simp
  have first: "get_transcript e video_id (Some Redis) w = (Inr j, ?w1)"
    by (rule get_transcript_hit[OF assms(1) now1])
  have kept: "kv (advance d ?w1) (transcript_key video_id) = Some (Json j, expiry)"
    using assms(1) by simp
  have live: "now (advance d ?w1) < expiry"
    using assms(2) by simp
  note second = get_transcript_hit[OF kept live, of e]
  show ?thesis
    using assms(1) by (simp add: first second)
qed

theorem warm_cache_idempotent_witness:
  "fst (get_transcript offline_env ''abc123'' (Some Redis)
          (request_world 0 [transcript_key ''abc123'' \<mapsto>
             (Json (JTranscript \<lparr>source = ''youtube_api'', segments = [good_segment]\<rparr>), 86400)]))
     = Inr (JTranscript \<lparr>source = ''youtube_api'', segments = [good_segment]\<rparr>) \<and>
   fst (get_transcript offline_env ''abc123'' (Some Redis)
          (advance 60 (snd (get_transcript offline_env ''abc123'' (Some Redis)
             (request_world 0 [transcript_key ''abc123'' \<mapsto>
                (Json (JTranscript \<lparr>source = ''youtube_api'', segments = [good_segment]\<rparr>), 86400)])))))
     = Inr (JTranscript \<lparr>source = ''youtube_api'', segments = [good_segment]\<rparr>)"
  using warm_cache_idempotent[of
      "request_world 0 [transcript_key ''abc123'' \<mapsto>
             (Json (JTranscript \<lparr>source = ''youtube_api'', segments = [good_segment]\<rparr>), 86400)]"
      "''abc123''" "JTranscript \<lparr>source = ''youtube_api'', segments = [good_segment]\<rparr>" 86400 60
      offline_env]
  by (simp add: request_world_def)

text \<open>
  Claim C7 fails on the code: without the yt-dlp package \<open>fallback_whisper\<close> returns
  the string of \<open>get_mock_transcript\<close> itself, not a list of one segment.
\<close>

theorem fallback_whisper_returns_string:
  "fst (fallback_whisper offline_env ''abc123'' (request_world 0 Map.empty))
     = PlainString generic_mock_transcript"
  by (simp add: fallback_whisper_def offline_env_def get_mock_transcript_def
        get_video_details_def truthy_def no_details_def Let_def)

theorem fallback_whisper_returns_string_witness:
  "\<forall>segs. fst (fallback_whisper offline_env ''abc123'' (request_world 0 Map.empty))
     \<noteq> SegmentList segs"
  using fallback_whisper_returns_string by simp

text \<open>
  Claim C5 fails on the code: \<open>urlparse\<close> raises ValueError on unmatched square
  brackets in the network location, and \<open>extract_video_id\<close> does not catch it.
\<close>

theorem extract_video_id_raises:
  "extract_video_id ''http://['' = Inl (ValueError ''Invalid IPv6 URL'')"
  by code_simp

section \<open>Properties of extract\_video\_id\<close>








































section \<open>Claims about extract\_video\_id and the asynchronous flow\<close>






lemma short_link_id: "extract_video_id ''https://youtu.be/abc123'' = Inr ''abc123''"
  by code_simp

lemma offline_get_transcript:
  assumes "kv w (transcript_key ''abc123'') = None"
  shows "fst (get_transcript offline_env ''abc123'' (Some Redis) w) =
     Inr (JTranscript \<lparr>source = ''mock_data'',
            segments = [\<lparr>seg_text = generic_mock_transcript, seg_start = 0, seg_duration = 0\<rparr>]\<rparr>)"
    and "snd (get_transcript offline_env ''abc123'' (Some Redis) w) =
     redis_setex (transcript_key ''abc123'') 86400
       (Json (JTranscript \<lparr>source = ''mock_data'',
            segments = [\<lparr>seg_text = generic_mock_transcript, seg_start = 0, seg_duration = 0\<rparr>]\<rparr>))
       (record_call (TranscriptApi ''abc123'')
          (redis_setex (status_key ''abc123'') 3600 (Text ''pending'')
             (redis_delete (status_key ''abc123'') (redis_delete (error_key ''abc123'') w))))"
proof -
  have miss: "\<not> found (redis_get (transcript_key ''abc123'') w)"
    using assms by (simp add: redis_get_def read_at_def found_def)
  have nocap: "\<forall>l. api_get_transcript offline_env ''abc123'' = Inr l \<longrightarrow> l = []"
    by (simp add: offline_env_def)
  have mock: "\<And>w'. get_mock_transcript offline_env ''abc123'' w' = (generic_mock_transcript, w')"
    by (simp add: get_mock_transcript_def get_video_details_def offline_env_def truthy_def
          no_details_def)
  have eq: "get_transcript offline_env ''abc123'' (Some Redis) w =
      use_mock_transcript offline_env ''abc123'' (Some Redis)
        (record_call (TranscriptApi ''abc123'')
          (redis_setex (status_key ''abc123'') 3600 (Text ''pending'')
             (redis_delete (status_key ''abc123'') (redis_delete (error_key ''abc123'') w))))"
    by (simp only: get_transcript_miss[OF miss] fetch_uncached_no_captions[OF nocap])
  show "fst (get_transcript offline_env ''abc123'' (Some Redis) w) =
     Inr (JTranscript \<lparr>source = ''mock_data'',
            segments = [\<lparr>seg_text = generic_mock_transcript, seg_start = 0, seg_duration = 0\<rparr>]\<rparr>)"
    by (simp add: eq use_mock_transcript_def mock cache_and_return_def Let_def)
  show "snd (get_transcript offline_env ''abc123'' (Some Redis) w) =
     redis_setex (transcript_key ''abc123'') 86400
       (Json (JTranscript \<lparr>source = ''mock_data'',
            segments = [\<lparr>seg_text = generic_mock_transcript, seg_start = 0, seg_duration = 0\<rparr>]\<rparr>))
       (record_call (TranscriptApi ''abc123'')
          (redis_setex (status_key ''abc123'') 3600 (Text ''pending'')
             (redis_delete (status_key ''abc123'') (redis_delete (error_key ''abc123'') w))))"
    by (simp add: eq use_mock_transcript_def mock cache_and_return_def Let_def)
qed

lemma offline_process_video:
  assumes "kv w (transcript_key ''abc123'') = None"
  shows "\<exists>l. process_video offline_env ''abc123'' ''https://youtu.be/abc123'' w =
     redis_setex (status_key ''abc123'') 3600 (Text ''completed'')
       (redis_setex (insights_key ''abc123'') 86400 (Json (JInsights l))
         (snd (get_transcript offline_env ''abc123'' (Some Redis)
            (redis_setex (status_key ''abc123'') 3600 (Text ''processing'')
              (redis_delete (error_key ''abc123'') (redis_delete (status_key ''abc123'') w))))))"
proof -
  let ?w3 = "redis_setex (status_key ''abc123'') 3600 (Text ''processing'')
              (redis_delete (error_key ''abc123'') (redis_delete (status_key ''abc123'') w))"
  have k: "kv ?w3 (transcript_key ''abc123'') = None"
    using assms by simp
  obtain r w4 where g: "get_transcript offline_env ''abc123'' (Some Redis) ?w3 = (r, w4)" by force
  with offline_get_transcript(1)[OF k] have r: "r = Inr (JTranscript \<lparr>source = ''mock_data'',
            segments = [\<lparr>seg_text = generic_mock_transcript, seg_start = 0, seg_duration = 0\<rparr>]\<rparr>)"
    by simp
  obtain l where x: "extract_insights offline_env
      [\<lparr>seg_text = generic_mock_transcript, seg_start = 0, seg_duration = 0\<rparr>] = Inr l"
    by (simp add: extract_insights_eq)
  show ?thesis
    by (rule exI[of _ l])
       (simp add: process_video_def process_video_work_def fetch_transcript_def short_link_id
          g r segments_of_def x Let_def)
qed

text \<open>
  Claim C1. In every store that \<open>process_video\<close> writes, from any starting state,
  and at every time \<open>t\<close> at which a poller reads it: if the status key of the
  identifier reads "completed", then the insights key reads a list of insights that is
  not empty, and \<open>get_video_insights\<close> returns that list. The insights are written
  (for 86400 seconds) before the status (for 3600 seconds), so no written store has the
  status without the insights, and the insights outlive the status.
\<close>

theorem completed_status_implies_insights:
  "\<forall>m \<in> set (new_stores w (process_video e video_id video_url w)). \<forall>t.
     read_at t m (status_key video_id) = Some (Text ''completed'') \<longrightarrow>
     (\<exists>l. l \<noteq> [] \<and> read_at t m (insights_key video_id) = Some (Json (JInsights l)) \<and>
          get_video_insights video_id (request_world t m) = Inr (JInsights l))"
proof (intro ballI allI impI)
  fix m t
  assume m: "m \<in> set (new_stores w (process_video e video_id video_url w))"
    and st: "read_at t m (status_key video_id) = Some (Text ''completed'')"
  from process_video_history[of e video_id video_url w]
  obtain hs where "history (process_video e video_id video_url w) = history w @ hs"
    and "list_all (insights_ready video_id) hs" by blast
  with m have "insights_ready video_id m"
    by (simp add: new_stores_def list_all_iff)
  from insights_ready_poll[OF this st]
  show "\<exists>l. l \<noteq> [] \<and> read_at t m (insights_key video_id) = Some (Json (JInsights l)) \<and>
          get_video_insights video_id (request_world t m) = Inr (JInsights l)" .
qed

theorem completed_status_implies_insights_witness:
  "read_at 10 (kv (process_video offline_env ''abc123'' ''https://youtu.be/abc123''
                     (request_world 0 Map.empty))) (status_key ''abc123'')
     = Some (Text ''completed'') \<and>
   (\<exists>l. l \<noteq> [] \<and>
      get_video_insights ''abc123''
        (request_world 10 (kv (process_video offline_env ''abc123'' ''https://youtu.be/abc123''
                                 (request_world 0 Map.empty))))
        = Inr (JInsights l))"
proof -
  let ?w = "request_world 0 Map.empty"
  let ?W = "process_video offline_env ''abc123'' ''https://youtu.be/abc123'' ?w"
  have k: "kv ?w (transcript_key ''abc123'') = None"
    by (simp add: request_world_def)
  from offline_process_video[OF k] obtain l where
    p: "?W = redis_setex (status_key ''abc123'') 3600 (Text ''completed'')
       (redis_setex (insights_key ''abc123'') 86400 (Json (JInsights l))
         (snd (get_transcript offline_env ''abc123'' (Some Redis)
            (redis_setex (status_key ''abc123'') 3600 (Text ''processing'')
              (redis_delete (error_key ''abc123'') (redis_delete (status_key ''abc123'') ?w))))))"
    by blast
  have k3: "kv (redis_setex (status_key ''abc123'') 3600 (Text ''processing'')
              (redis_delete (error_key ''abc123'') (redis_delete (status_key ''abc123'') ?w)))
            (transcript_key ''abc123'') = None"
    by (simp add: request_world_def)
  have written: "kv ?W \<in> set (new_stores ?w ?W)"
    unfolding p by (simp add: new_stores_def request_world_def)
  have st: "read_at 10 (kv ?W) (status_key ''abc123'') = Some (Text ''completed'')"
    unfolding p offline_get_transcript(2)[OF k3]
    by (simp add: read_at_def request_world_def)
  from completed_status_implies_insights[rule_format, OF written st] st
  show ?thesis by blast
qed

text \<open>
  Claim C2 fails on the code. One submission of \<open>https://youtu.be/abc123\<close> to an
  empty store, with a caption API that finds no transcript, makes a poller of the
  status key see, after the successive writes: absent, absent, "pending" (the
  endpoint), absent, absent, "processing" (the task), "processing", absent, "pending"
  (\<open>get_transcript\<close>, called by the task), "pending", "pending", "completed". The
  status goes from "processing" back to "pending" without a new submission.
\<close>

theorem processing_reverts_to_pending:
  "status_trace ''abc123'' 0
     (history (submit_and_process offline_env ''https://youtu.be/abc123'' 0 (request_world 0 Map.empty)))
   = [None, None, Some (Text ''pending''), None, None,
      Some (Text ''processing''), Some (Text ''processing''), None,
      Some (Text ''pending''), Some (Text ''pending''),
      Some (Text ''pending''), Some (Text ''completed'')]"
proof -
  let ?w0 = "advance 0 (redis_setex (status_key ''abc123'') 3600 (Text ''pending'')
     (redis_delete (error_key ''abc123'') (redis_delete (status_key ''abc123'') (request_world 0 Map.empty))))"
  have k: "kv ?w0 (transcript_key ''abc123'') = None"
    by (simp add: request_world_def)
  let ?w3 = "redis_setex (status_key ''abc123'') 3600 (Text ''processing'')
              (redis_delete (error_key ''abc123'') (redis_delete (status_key ''abc123'') ?w0))"
  have k3: "kv ?w3 (transcript_key ''abc123'') = None"
    by (simp add: request_world_def)
  from offline_process_video[OF k] obtain l where
    p: "process_video offline_env ''abc123'' ''https://youtu.be/abc123'' ?w0 =
     redis_setex (status_key ''abc123'') 3600 (Text ''completed'')
       (redis_setex (insights_key ''abc123'') 86400 (Json (JInsights l))
         (snd (get_transcript offline_env ''abc123'' (Some Redis) ?w3)))" by blast
  have s: "submit_and_process offline_env ''https://youtu.be/abc123'' 0 (request_world 0 Map.empty)
      = process_video offline_env ''abc123'' ''https://youtu.be/abc123'' ?w0"
    by (simp add: submit_and_process_def process_video_request_def short_link_id Let_def)
  show ?thesis
    unfolding s p offline_get_transcript(2)[OF k3]
    by (simp add: status_trace_def read_at_def request_world_def status_key_def error_key_def
          transcript_key_def insights_key_def)
qed

end
